theory Spec2Isabelle
  imports Complex_Main "HOL-Library.Log_Nat"
begin

section \<open>MENTORA: the persisted learner state and its progression rules\<close>

text \<open>
  A shallow embedding of the state logic of \<^verbatim>\<open>script.js\<close>: the stored state document
  and its merge with the defaults (\<^verbatim>\<open>getState\<close>), the streak rule
  (\<^verbatim>\<open>bumpStreakIfNeeded\<close>), the rank table (\<^verbatim>\<open>computeRank\<close>) and the click handlers
  that read the state, change it and save it again.

  Modelling decisions, all of them visible in the types:
  \<^item> a JavaScript object with a fixed set of keys is a record whose fields are
    \<open>'a slot\<close>: the key is \<open>Missing\<close> (reads give \<^verbatim>\<open>undefined\<close>), holds \<^verbatim>\<open>null\<close>, or
    holds a value of the type the comments of \<^verbatim>\<open>getDefaultState\<close> document;
  \<^item> an object used as a dictionary is a map \<open>string \<rightharpoonup> 'v\<close> of the entries of its
    own; a key it lacks is looked up among the members every plain object inherits
    (\<^verbatim>\<open>constructor\<close>, \<^verbatim>\<open>toString\<close>, \<^verbatim>\<open>__proto__\<close>, ...), which the platform supplies;
  \<^item> stored numbers are integers, on which the sums and differences of the code
    are exact; a quotient and its product with a number are IEEE 754 binary64, as
    every JavaScript number is, rounded to nearest with ties to even (\<open>binary64\<close>);
  \<^item> the clock (\<^verbatim>\<open>new Date()\<close>, \<^verbatim>\<open>Date.now()\<close>), the form inputs, the catalogue
    \<^verbatim>\<open>DATA\<close> and the platform's objects are parameters of the functions that read
    them; what a handler writes to the document or to a platform object is not
    followed;
  \<^item> a \<^verbatim>\<open>TypeError\<close> thrown inside a handler ends the handler: the outcome keeps
    the effects made before the throw.
\<close>

subsection \<open>JavaScript values\<close>

datatype 'a slot = Missing | Null | Val 'a

text \<open>Truthiness, as \<^verbatim>\<open>!x\<close>, \<^verbatim>\<open>x || y\<close> and \<^verbatim>\<open>x ? a : b\<close> test it.\<close>

fun truthyN :: "int slot \<Rightarrow> bool" where
  "truthyN (Val n) = (n \<noteq> 0)"
| "truthyN _ = False"

fun truthyS :: "string slot \<Rightarrow> bool" where
  "truthyS (Val s) = (s \<noteq> [])"
| "truthyS _ = False"

text \<open>\<^verbatim>\<open>x || 0\<close> on a number slot.\<close>

fun orZero :: "int slot \<Rightarrow> int" where
  "orZero (Val n) = (if n \<noteq> 0 then n else 0)"
| "orZero _ = 0"

text \<open>\<^verbatim>\<open>x || {}\<close> on a dictionary slot.\<close>

fun orEmpty :: "('k \<rightharpoonup> 'v) slot \<Rightarrow> ('k \<rightharpoonup> 'v)" where
  "orEmpty (Val m) = m"
| "orEmpty _ = Map.empty"

text \<open>
  One key of an object spread \<^verbatim>\<open>{ ...d, ...s }\<close>: a key that \<open>s\<close> has (even with
  \<^verbatim>\<open>null\<close>) wins, a key that \<open>s\<close> lacks keeps the value of \<open>d\<close>.
\<close>

fun spread :: "'a slot \<Rightarrow> 'a slot \<Rightarrow> 'a slot" where
  "spread d Missing = d"
| "spread d s = s"

datatype error = TypeError

text \<open>Reading a property of \<^verbatim>\<open>undefined\<close> or \<^verbatim>\<open>null\<close> throws.\<close>

fun deref :: "'a slot \<Rightarrow> error + 'a" where
  "deref (Val x) = Inr x"
| "deref _ = Inl TypeError"

subsection \<open>Utilities\<close>

definition clamp :: "'a::linorder \<Rightarrow> 'a \<Rightarrow> 'a \<Rightarrow> 'a" where
  "clamp n mn mx = max mn (min mx n)"

text \<open>\<^verbatim>\<open>Math.round\<close>: the nearest integer, a half rounds up.\<close>

definition Math_round :: "rat \<Rightarrow> int" where
  "Math_round x = \<lfloor>x + 1 / 2\<rfloor>"

text \<open>
  A JavaScript number is an IEEE 754 binary64: a significand of 53 bits and an
  exponent. \<open>binary64 x\<close> is the number that \<^verbatim>\<open>/\<close> and \<^verbatim>\<open>*\<close> return when the exact
  quotient or product is \<open>x\<close>: the multiple of \<open>2 powi (e - 52)\<close> nearest to \<open>x\<close>, a tie
  going to the even multiple, where \<open>e\<close> is the exponent of \<open>x\<close> (not below -1022, where
  the subnormal numbers begin). Overflow to \<^verbatim>\<open>Infinity\<close> is left out: the quotients and
  products of the code stay below 101, except those of the rank of a negative
  total, of which the clamp keeps the sign only.
\<close>

definition exponent :: "rat \<Rightarrow> int" where
  "exponent x =
     (let (a, b) = quotient_of x;
          k = bitlen a - bitlen b
      in if 2 powi k \<le> x then k else k - 1)"

definition roundEven :: "rat \<Rightarrow> int" where
  "roundEven m =
     (let f = \<lfloor>m\<rfloor>; r = m - of_int f
      in if r < 1 / 2 then f
         else if 1 / 2 < r then f + 1
         else if even f then f else f + 1)"

definition binary64 :: "rat \<Rightarrow> rat" where
  "binary64 x =
     (if x = 0 then 0
      else (let q = 2 powi (max (exponent \<bar>x\<bar>) (- 1022) - 52)
            in sgn x * of_int (roundEven (\<bar>x\<bar> / q)) * q))"

text \<open>\<^verbatim>\<open>String(n)\<close> for an integer and \<^verbatim>\<open>padStart\<close>.\<close>

definition digit :: "nat \<Rightarrow> char" where
  "digit d = ''0123456789'' ! d"

function decimal :: "nat \<Rightarrow> string" where
  "decimal n = (if n < 10 then [digit n] else decimal (n div 10) @ [digit (n mod 10)])"
  by pat_completeness auto
termination
  by (relation "measure id") auto

definition String_of :: "int \<Rightarrow> string" where
  "String_of i = (if i < 0 then CHR ''-'' # decimal (nat (- i)) else decimal (nat i))"

definition padStart :: "nat \<Rightarrow> char \<Rightarrow> string \<Rightarrow> string" where
  "padStart n c s = replicate (n - length s) c @ s"

text \<open>The three getters of \<^verbatim>\<open>new Date()\<close> that \<^verbatim>\<open>todayISO\<close> reads.\<close>

record date =
  getFullYear :: int
  getMonth :: nat
  getDate :: nat

definition todayISO :: "date \<Rightarrow> string" where
  "todayISO d =
     (let yyyy = getFullYear d;
          mm = padStart 2 CHR ''0'' (String_of (int (getMonth d) + 1));
          dd = padStart 2 CHR ''0'' (String_of (int (getDate d)))
      in String_of yyyy @ ''-'' @ mm @ ''-'' @ dd)"

subsection \<open>Rank table\<close>

record level =
  name :: string
  lmin :: int
  lnext :: "int slot"

definition levels :: "level list" where
  "levels =
     [\<lparr>name = ''Beginner'', lmin = 0, lnext = Val 300\<rparr>,
      \<lparr>name = ''Intermediate'', lmin = 300, lnext = Val 700\<rparr>,
      \<lparr>name = ''Advanced'', lmin = 700, lnext = Val 1200\<rparr>,
      \<lparr>name = ''Pro'', lmin = 1200, lnext = Null\<rparr>]"

record rank =
  current :: string
  nxt :: "int slot"
  rmin :: int
  pct :: rat

definition computeRank :: "int \<Rightarrow> rank" where
  "computeRank xp =
     (let current = (case find (\<lambda>l. xp \<ge> lmin l) (rev levels) of
                       Some l \<Rightarrow> l
                     | None \<Rightarrow> hd levels);
          next = lnext current;
          pct = (case next of
                   Val n \<Rightarrow>
                     if n \<noteq> 0
                     then clamp (binary64
                            (binary64 (of_int (xp - lmin current) / of_int (n - lmin current)) * 100))
                            0 100
                     else 100
                 | _ \<Rightarrow> 100)
      in \<lparr>current = name current, nxt = next, rmin = lmin current, pct = pct\<rparr>)"

text \<open>The place of a tier name in the table; names outside the table get its length.\<close>

definition tierIndex :: "string \<Rightarrow> nat" where
  "tierIndex n = length (takeWhile (\<lambda>l. name l \<noteq> n) levels)"

subsection \<open>The persisted state\<close>

text \<open>
  The shape of \<^verbatim>\<open>getDefaultState()\<close>. Every key is a slot, so that a stored document
  may lack it or hold \<^verbatim>\<open>null\<close> there.
\<close>

record streak_obj =
  count :: "int slot"
  lastDate :: "string slot"

record assessment_obj =
  lastScore :: "int slot"
  lastTakenAt :: "int slot"

text \<open>
  A like count is a number; the like handler can also leave a text there (see
  \<open>communityList_onclick\<close>).
\<close>

datatype likeval = Count int | Words string

record community_obj =
  likes :: "(string \<rightharpoonup> likeval) slot"
  comments :: "(string \<rightharpoonup> string list) slot"

record state =
  streak :: "streak_obj slot"
  xp :: "int slot"
  courseProgress :: "(string \<rightharpoonup> int slot) slot"
  selectedCourseId :: "string slot"
  roadmapDone :: "(string \<rightharpoonup> bool) slot"
  courseRoadmapDone :: "(string \<rightharpoonup> (string \<rightharpoonup> bool)) slot"
  assessment :: "assessment_obj slot"
  codingDrafts :: "(string \<rightharpoonup> string) slot"
  community :: "community_obj slot"

text \<open>
  The item of \<^verbatim>\<open>localStorage\<close> under the key \<^verbatim>\<open>mentora_state\<close>: no item
  (\<^verbatim>\<open>getItem\<close> gives \<^verbatim>\<open>null\<close>), a text that is empty or that \<^verbatim>\<open>JSON.parse\<close> rejects, or
  a text that parses to a value.
\<close>

datatype 'a item = NoItem | BadText | Text 'a

text \<open>
  The page: the stored state and the two variables of the assessment timer
  (\<^verbatim>\<open>assessmentTimer\<close> holds the handle that \<^verbatim>\<open>setInterval\<close> returned).
\<close>

record page =
  mentora_state :: "state slot item"
  assessmentTimer :: "nat slot"
  assessmentEndsAt :: "int slot"

definition safeJsonParse :: "'a item \<Rightarrow> 'a \<Rightarrow> 'a" where
  "safeJsonParse raw fallback =
     (case raw of NoItem \<Rightarrow> fallback | BadText \<Rightarrow> fallback | Text v \<Rightarrow> v)"

definition getDefaultState :: "date \<Rightarrow> state" where
  "getDefaultState d =
     \<lparr>streak = Val \<lparr>count = Val 1, lastDate = Val (todayISO d)\<rparr>,
      xp = Val 120,
      courseProgress = Val Map.empty,
      selectedCourseId = Null,
      roadmapDone = Val Map.empty,
      courseRoadmapDone = Val Map.empty,
      assessment = Val \<lparr>lastScore = Null, lastTakenAt = Null\<rparr>,
      codingDrafts = Val Map.empty,
      community = Val \<lparr>likes = Val Map.empty, comments = Val Map.empty\<rparr>\<rparr>"

text \<open>
  The keys an object spread takes from a streak value: \<^verbatim>\<open>undefined\<close> and \<^verbatim>\<open>null\<close>
  give none (so \<^verbatim>\<open>...(st.streak || {})\<close> and \<^verbatim>\<open>...st.streak\<close> take the same keys).
\<close>

definition ownKeys :: "streak_obj slot \<Rightarrow> streak_obj" where
  "ownKeys s = (case s of Val t \<Rightarrow> t | _ \<Rightarrow> \<lparr>count = Missing, lastDate = Missing\<rparr>)"

text \<open>\<^verbatim>\<open>{ ...a, ...b }\<close> on two streak objects.\<close>

definition spreadStreak :: "streak_obj \<Rightarrow> streak_obj \<Rightarrow> streak_obj" where
  "spreadStreak a b =
     \<lparr>count = spread (count a) (count b), lastDate = spread (lastDate a) (lastDate b)\<rparr>"

text \<open>
  \<^verbatim>\<open>if (!st) return getDefaultState();\<close> then the spread of the defaults, the stored
  object and the merged streak, key by key.
\<close>

definition getState :: "date \<Rightarrow> page \<Rightarrow> state" where
  "getState d p =
     (case safeJsonParse (mentora_state p) Null of
        Val st \<Rightarrow>
          (let df = getDefaultState d in
           \<lparr>streak = Val (spreadStreak (ownKeys (streak df)) (ownKeys (streak st))),
            xp = spread (xp df) (xp st),
            courseProgress = spread (courseProgress df) (courseProgress st),
            selectedCourseId = spread (selectedCourseId df) (selectedCourseId st),
            roadmapDone = spread (roadmapDone df) (roadmapDone st),
            courseRoadmapDone = spread (courseRoadmapDone df) (courseRoadmapDone st),
            assessment = spread (assessment df) (assessment st),
            codingDrafts = spread (codingDrafts df) (codingDrafts st),
            community = spread (community df) (community st)\<rparr>)
      | _ \<Rightarrow> getDefaultState d)"

definition saveState :: "state \<Rightarrow> page \<Rightarrow> page" where
  "saveState st p = p\<lparr>mentora_state := Text (Val st)\<rparr>"

subsection \<open>Streak\<close>

text \<open>
  \<^verbatim>\<open>new Date(s + "T00:00:00")\<close> belongs to the platform: \<open>localDay s\<close> is the number of
  the local calendar day it denotes, \<open>None\<close> for an invalid date. The rounded quotient
  of two local midnights by a day's milliseconds is the difference of their day
  numbers; with an invalid date it is \<^verbatim>\<open>NaN\<close>, which equals nothing.
\<close>

definition diffDays :: "(string \<Rightarrow> int option) \<Rightarrow> string \<Rightarrow> string \<Rightarrow> int option" where
  "diffDays localDay last' today =
     (case (localDay last', localDay today) of
        (Some l, Some t) \<Rightarrow> Some (t - l)
      | _ \<Rightarrow> None)"

definition bumpStreakIfNeeded :: "(string \<Rightarrow> int option) \<Rightarrow> date \<Rightarrow> state \<Rightarrow> state" where
  "bumpStreakIfNeeded localDay d st =
     (let last' = (case streak st of Val s \<Rightarrow> lastDate s | _ \<Rightarrow> Missing);
          today = todayISO d
      in if \<not> truthyS last' then st\<lparr>streak := Val \<lparr>count = Val 1, lastDate = Val today\<rparr>\<rparr>
         else if last' = Val today then st
         else (case (streak st, last') of
                 (Val s, Val l) \<Rightarrow>
                   (let s1 = (if diffDays localDay l today = Some 1
                              then s\<lparr>count := Val (orZero (count s) + 1)\<rparr>
                              else s\<lparr>count := Val 1\<rparr>)
                    in st\<lparr>streak := Val (s1\<lparr>lastDate := Val today\<rparr>)\<rparr>)
               | _ \<Rightarrow> st))"

text \<open>Session start (\<^verbatim>\<open>initDashboardApp\<close>, the login form): bump and save.\<close>

definition sessionStart :: "(string \<Rightarrow> int option) \<Rightarrow> date \<Rightarrow> page \<Rightarrow> page" where
  "sessionStart localDay d p = saveState (bumpStreakIfNeeded localDay d (getState d p)) p"

subsection \<open>Inherited members\<close>

text \<open>
  The dictionaries of the state are plain objects: \<^verbatim>\<open>JSON.parse\<close> and the literals of
  \<^verbatim>\<open>getDefaultState\<close> make them, so they inherit the members of \<^verbatim>\<open>Object.prototype\<close>,
  and reading a key that a dictionary has no entry for finds these. As the standard
  has them, the members are

    \<^item> functions (\<^verbatim>\<open>constructor\<close>, \<^verbatim>\<open>toString\<close>, \<^verbatim>\<open>valueOf\<close>, \<^verbatim>\<open>hasOwnProperty\<close>, ...), which
      are truthy, which an assignment to the same key of the dictionary shadows
      with an entry, which \<^verbatim>\<open>JSON.stringify\<close> leaves out when they are the value of an
      entry, and which convert to their source text, hence to the number
      \<^verbatim>\<open>NaN\<close>;
    \<^item> the accessor \<^verbatim>\<open>__proto__\<close>, which reads as \<^verbatim>\<open>Object.prototype\<close> itself (truthy,
      in text \<^verbatim>\<open>[object Object]\<close>) and which swallows the assignment of a number, a
      text or a boolean: no entry is made. (An entry of that name, which
      \<^verbatim>\<open>JSON.parse\<close> makes from a document that has one, is read and written like
      any other.)

  Which names the functions have is the platform's: \<open>inherits\<close>. \<open>memberText\<close> is the
  text an inherited member converts to. \<open>probe c k\<close> tells what the handler of the
  roadmap meets at the key \<open>k\<close> of the member inherited under \<open>c\<close>: the read throws
  (\<^verbatim>\<open>caller\<close> of a built-in function), or it gives a value, truthy or not, and then
  the assignment to that key throws (in strict mode, for a key that is read-only
  such as \<^verbatim>\<open>name\<close>) or does not.
\<close>

datatype probe = ReadThrows | Member bool bool

record platform =
  inherits :: "string \<Rightarrow> bool"
  memberText :: "string \<Rightarrow> string"
  probe :: "string \<Rightarrow> string \<Rightarrow> probe"

definition inherited :: "platform \<Rightarrow> string \<Rightarrow> bool" where
  "inherited E k = (k = ''__proto__'' \<or> inherits E k)"

text \<open>\<^verbatim>\<open>m[k] = v\<close> for a number, a text or a boolean \<open>v\<close>.\<close>

definition assign :: "(string \<rightharpoonup> 'v) \<Rightarrow> string \<Rightarrow> 'v \<Rightarrow> (string \<rightharpoonup> 'v)" where
  "assign m k v = (if k = ''__proto__'' \<and> m k = None then m else m(k \<mapsto> v))"

subsection \<open>Handlers\<close>

text \<open>
  A handler either runs to its end or throws; a throw keeps what the handler did to
  the page before it.
\<close>

datatype outcome = Done page | Raised error page

fun after :: "outcome \<Rightarrow> page" where
  "after (Done p) = p"
| "after (Raised e p) = p"

fun raised :: "outcome \<Rightarrow> bool" where
  "raised (Done p) = False"
| "raised (Raised e p) = True"

text \<open>
  \<^verbatim>\<open>lessonBtn.onclick\<close> of \<^verbatim>\<open>setCoursePlayer\<close>, bound to the course \<open>cid\<close>. An entry of
  \<^verbatim>\<open>courseProgress\<close> is a number or \<^verbatim>\<open>null\<close>; \<open>cur\<close> and \<open>updated\<close> are \<open>None\<close> when they
  are \<^verbatim>\<open>NaN\<close>, which \<^verbatim>\<open>Math.min\<close> and \<^verbatim>\<open>Math.max\<close> make of an inherited member and
  hand on, and which \<^verbatim>\<open>JSON.stringify\<close> writes as \<^verbatim>\<open>null\<close>.
\<close>

definition lessonBtn_onclick :: "date \<Rightarrow> platform \<Rightarrow> string \<Rightarrow> page \<Rightarrow> outcome" where
  "lessonBtn_onclick d E cid p =
     (let next = getState d p in
      case deref (courseProgress next) of
        Inl e \<Rightarrow> Raised e p
      | Inr cp \<Rightarrow>
          (let cur = (case cp cid of
                        Some v \<Rightarrow> Some (clamp (orZero v) 0 100)
                      | None \<Rightarrow> if inherited E cid then None else Some (clamp 0 0 100));
               updated = (case cur of
                            Some n \<Rightarrow> Val (clamp (n + 10) 0 100)
                          | None \<Rightarrow> Null);
               next = next\<lparr>courseProgress := Val (assign cp cid updated)\<rparr>;
               next = next\<lparr>xp := Val (orZero (xp next) + 15)\<rparr>
           in Done (saveState next p)))"

text \<open>\<^verbatim>\<open>xpBtn.onclick\<close> of \<^verbatim>\<open>setCoursePlayer\<close>.\<close>

definition xpBtn_onclick :: "date \<Rightarrow> page \<Rightarrow> outcome" where
  "xpBtn_onclick d p =
     (let next = getState d p;
          next = next\<lparr>xp := Val (orZero (xp next) + 25)\<rparr>
      in Done (saveState next p))"

text \<open>
  \<^verbatim>\<open>list.onclick\<close> of \<^verbatim>\<open>renderCourseRoadmap\<close> on a step button; \<open>cid\<close> and \<open>stepId\<close> are
  the button's attributes \<^verbatim>\<open>data-course-id\<close> and \<^verbatim>\<open>data-course-step\<close> (an attribute
  that is not there is falsy like the empty string).

  \<^verbatim>\<open>next.courseRoadmapDone[cid] || {}\<close> is the entry of the course when there is one.
  When there is none and \<open>cid\<close> names an inherited member, it is that member: the
  flag is read from it and written to it, where \<^verbatim>\<open>JSON.stringify\<close> does not look, so
  what is saved has the roadmap as it was read. Otherwise it is a new object, and
  the course gets an entry. In an object of flags, the flag of a step without an
  entry is that of the inherited member of its name, if there is one.
\<close>

definition courseRoadmapList_onclick :: "date \<Rightarrow> platform \<Rightarrow> string \<Rightarrow> string \<Rightarrow> page \<Rightarrow> outcome" where
  "courseRoadmapList_onclick d E cid stepId p =
     (if cid = [] \<or> stepId = [] then Done p
      else
        (let next = getState d p;
             done = orEmpty (courseRoadmapDone next)
         in if done cid = None \<and> inherited E cid
            then
              (case probe E cid stepId of
                 ReadThrows \<Rightarrow> Raised TypeError p
               | Member currentDone writes \<Rightarrow>
                   if \<not> writes then Raised TypeError p
                   else
                     (let next = next\<lparr>courseRoadmapDone := Val done\<rparr>;
                          next = (if \<not> currentDone then next\<lparr>xp := Val (orZero (xp next) + 30)\<rparr> else next)
                      in Done (saveState next p)))
            else
              (let steps = (case done cid of Some m \<Rightarrow> m | None \<Rightarrow> Map.empty);
                   currentDone = (case steps stepId of Some b \<Rightarrow> b | None \<Rightarrow> inherited E stepId);
                   next = next\<lparr>courseRoadmapDone := Val (done(cid \<mapsto> assign steps stepId (\<not> currentDone)))\<rparr>;
                   next = (if \<not> currentDone then next\<lparr>xp := Val (orZero (xp next) + 30)\<rparr> else next)
               in Done (saveState next p))))"

text \<open>
  The click on choice \<open>i\<close> of the practice question \<open>q\<close> in \<^verbatim>\<open>renderMCQPractice\<close>;
  \<open>answerIndex\<close> is \<^verbatim>\<open>q.answerIndex\<close>.
\<close>

definition mcqChoice_onclick :: "date \<Rightarrow> int \<Rightarrow> int \<Rightarrow> page \<Rightarrow> outcome" where
  "mcqChoice_onclick d i answerIndex p =
     (let isCorrect = (i = answerIndex) in
      if isCorrect
      then (let next = getState d p;
                next = next\<lparr>xp := Val (orZero (xp next) + 20)\<rparr>
            in Done (saveState next p))
      else Done p)"

text \<open>
  \<^verbatim>\<open>saveBtn.onclick\<close> of \<^verbatim>\<open>renderCodingPractice\<close>: \<open>ident\<close> is the selected option,
  \<open>code\<close> the text of the editor.
\<close>

definition saveCodeBtn_onclick :: "date \<Rightarrow> string \<Rightarrow> string \<Rightarrow> page \<Rightarrow> outcome" where
  "saveCodeBtn_onclick d ident code p =
     (if ident = [] then Done p
      else
        (let next = getState d p in
         case deref (codingDrafts next) of
           Inl e \<Rightarrow> Raised e p
         | Inr drafts \<Rightarrow> Done (saveState (next\<lparr>codingDrafts := Val (assign drafts ident code)\<rparr>) p)))"

text \<open>\<^verbatim>\<open>list.onclick\<close> of \<^verbatim>\<open>renderCourses\<close> on the button of course \<open>ident\<close>.\<close>

definition courseList_onclick :: "date \<Rightarrow> string \<Rightarrow> page \<Rightarrow> outcome" where
  "courseList_onclick d ident p =
     (let next = getState d p in Done (saveState (next\<lparr>selectedCourseId := Val ident\<rparr>) p))"

text \<open>
  \<^verbatim>\<open>String.prototype.trim\<close> on strings of 8-bit code units: the white space and line
  terminators of ECMAScript in that range.
\<close>

definition isWhiteSpace :: "char \<Rightarrow> bool" where
  "isWhiteSpace c = (c \<in> set [CHR 0x09, CHR 0x0A, CHR 0x0B, CHR 0x0C, CHR 0x0D, CHR 0x20, CHR 0xA0])"

definition trim :: "string \<Rightarrow> string" where
  "trim s = rev (dropWhile isWhiteSpace (rev (dropWhile isWhiteSpace s)))"

text \<open>
  \<^verbatim>\<open>list.onclick\<close> of \<^verbatim>\<open>renderCommunity\<close>. The click lands on a like button, on the
  post button of a comment box (whose input holds \<open>input\<close>, the empty text when the
  box is not found), or elsewhere.

  The like: \<^verbatim>\<open>(likes[id] || 0) + 1\<close> adds one to a number; to a text that is not empty,
  and to an inherited member, which converts to its text, \<^verbatim>\<open>+\<close> appends \<^verbatim>\<open>"1"\<close>.

  The comment: \<^verbatim>\<open>comments[id] || []\<close> is the list of the post when it has an entry,
  and a new list when it has none and \<open>id\<close> names no inherited member. When \<open>id\<close>
  names one, it is that member, which has no \<^verbatim>\<open>push\<close>: the call throws a
  \<^verbatim>\<open>TypeError\<close> before anything is saved.
\<close>

datatype target = LikeBtn string | CommentBtn string string | Elsewhere

fun communityList_onclick :: "date \<Rightarrow> platform \<Rightarrow> target \<Rightarrow> page \<Rightarrow> outcome" where
  "communityList_onclick d E (LikeBtn ident) p =
     (let next = getState d p in
      case deref (community next) of
        Inl e \<Rightarrow> Raised e p
      | Inr c \<Rightarrow>
          (case deref (likes c) of
             Inl e \<Rightarrow> Raised e p
           | Inr ls \<Rightarrow>
               (let sum = (case ls ident of
                             Some (Count n) \<Rightarrow> Count (n + 1)
                           | Some (Words w) \<Rightarrow> if w = [] then Count 1 else Words (w @ ''1'')
                           | None \<Rightarrow> if inherited E ident then Words (memberText E ident @ ''1'')
                                     else Count 1)
                in Done (saveState
                     (next\<lparr>community := Val (c\<lparr>likes := Val (assign ls ident sum)\<rparr>)\<rparr>) p))))"
| "communityList_onclick d E (CommentBtn ident input) p =
     (let text = trim input in
      if text = [] then Done p
      else
        (let next = getState d p in
         case deref (community next) of
           Inl e \<Rightarrow> Raised e p
         | Inr c \<Rightarrow>
             (case deref (comments c) of
                Inl e \<Rightarrow> Raised e p
              | Inr cs \<Rightarrow>
                  (case cs ident of
                     Some old \<Rightarrow>
                       Done (saveState
                         (next\<lparr>community := Val (c\<lparr>comments := Val (cs(ident \<mapsto> old @ [text]))\<rparr>)\<rparr>) p)
                   | None \<Rightarrow>
                       if inherited E ident then Raised TypeError p
                       else Done (saveState
                              (next\<lparr>community := Val (c\<lparr>comments := Val (cs(ident \<mapsto> [text]))\<rparr>)\<rparr>) p)))))"
| "communityList_onclick d E Elsewhere p = Done p"

declare communityList_onclick.simps [simp del]

text \<open>The reset button of the settings (after the confirmation) and the logout.\<close>

definition resetProgressBtn_onclick :: "date \<Rightarrow> page \<Rightarrow> outcome" where
  "resetProgressBtn_onclick d p = Done (saveState (getDefaultState d) p)"

definition logout :: "page \<Rightarrow> outcome" where
  "logout p = Done (p\<lparr>mentora_state := NoItem\<rparr>)"

subsection \<open>Assessment\<close>

record question =
  qid :: string
  answerIndex :: int

record quiz =
  timeSeconds :: "int slot"
  questions :: "question list slot"

definition FALLBACK_assessment :: quiz where
  "FALLBACK_assessment =
     \<lparr>timeSeconds = Val 60, questions = Val [\<lparr>qid = ''a1'', answerIndex = 2\<rparr>]\<rparr>"

text \<open>\<^verbatim>\<open>(DATA.assessment || FALLBACK_DATA.assessment).questions || []\<close>\<close>

definition quizQuestions :: "quiz slot \<Rightarrow> question list" where
  "quizQuestions a =
     (let qz = (case a of Val q \<Rightarrow> q | _ \<Rightarrow> FALLBACK_assessment)
      in case questions qz of Val qs \<Rightarrow> qs | _ \<Rightarrow> [])"

definition stopTimer :: "page \<Rightarrow> page" where
  "stopTimer p = p\<lparr>assessmentTimer := Null, assessmentEndsAt := Null\<rparr>"

text \<open>
  The loop over the questions: \<open>checked\<close> gives, for a question id, the value of the
  radio button that is checked under it.
\<close>

fun countCorrect :: "(string \<rightharpoonup> int) \<Rightarrow> question list \<Rightarrow> nat \<Rightarrow> nat" where
  "countCorrect checked [] correct = correct"
| "countCorrect checked (q # qs) correct =
     (let chosen = checked (qid q);
          val = (case chosen of Some v \<Rightarrow> Val v | None \<Rightarrow> Null);
          ok = (val = Val (answerIndex q))
      in countCorrect checked qs (if ok then correct + 1 else correct))"

text \<open>
  \<^verbatim>\<open>Math.round((correct / Math.max(1, questions.length)) * 100)\<close> and
  \<^verbatim>\<open>Math.round((scorePct / 100) * 80)\<close>: the quotient is rounded to a binary64, and
  so is its product.
\<close>

definition scorePct :: "nat \<Rightarrow> nat \<Rightarrow> int" where
  "scorePct correct n =
     Math_round (binary64 (binary64 (of_nat correct / of_nat (max 1 n)) * 100))"

definition bonus :: "int \<Rightarrow> int" where
  "bonus score = Math_round (binary64 (binary64 (of_int score / 100) * 80))"

definition submitAssessment :: "bool \<Rightarrow> int \<Rightarrow> date \<Rightarrow> quiz slot \<Rightarrow> (string \<rightharpoonup> int) \<Rightarrow> page \<Rightarrow> outcome" where
  "submitAssessment isAuto now d a checked p =
     (if \<not> truthyN (assessmentEndsAt p) then Done p
      else
        (let p = stopTimer p;
             qs = quizQuestions a;
             correct = countCorrect checked qs 0;
             score = scorePct correct (length qs);
             st = getState d p
         in case deref (assessment st) of
              Inl e \<Rightarrow> Raised e p
            | Inr asm \<Rightarrow>
                (let st = st\<lparr>assessment := Val (asm\<lparr>lastScore := Val score, lastTakenAt := Val now\<rparr>)\<rparr>;
                     st = st\<lparr>xp := Val (orZero (xp st) + bonus score)\<rparr>
                 in Done (saveState st p))))"

text \<open>\<^verbatim>\<open>tickTimer\<close>: the remaining seconds, and the automatic submission at zero.\<close>

definition tickTimer :: "int \<Rightarrow> date \<Rightarrow> quiz slot \<Rightarrow> (string \<rightharpoonup> int) \<Rightarrow> page \<Rightarrow> outcome" where
  "tickTimer now d a checked p =
     (case assessmentEndsAt p of
        Val endsAt \<Rightarrow>
          if endsAt = 0 then Done p
          else
            (let ms = endsAt - now;
                 s = max 0 \<lceil>(of_int ms :: rat) / 1000\<rceil>
             in if s \<le> 0 then submitAssessment True now d a checked p else Done p)
      | _ \<Rightarrow> Done p)"

text \<open>
  \<^verbatim>\<open>startAssessment\<close>: \<open>h\<close> is the handle that \<^verbatim>\<open>setInterval\<close> returns. The first tick
  runs at once; a throw in it leaves the handle unassigned.
\<close>

definition startAssessment :: "int \<Rightarrow> nat \<Rightarrow> date \<Rightarrow> quiz slot \<Rightarrow> (string \<rightharpoonup> int) \<Rightarrow> page \<Rightarrow> outcome" where
  "startAssessment now h d a checked p =
     (let p = stopTimer p;
          qz = (case a of Val q \<Rightarrow> q | _ \<Rightarrow> FALLBACK_assessment);
          totalSeconds = (if truthyN (timeSeconds qz) then orZero (timeSeconds qz) else 60);
          p = p\<lparr>assessmentEndsAt := Val (now + totalSeconds * 1000)\<rparr>
      in case tickTimer now d a checked p of
           Raised e p1 \<Rightarrow> Raised e p1
         | Done p1 \<Rightarrow> Done (p1\<lparr>assessmentTimer := Val h\<rparr>))"

text \<open>The reset button of the assessment view.\<close>

definition resetAssessmentBtn_onclick :: "page \<Rightarrow> outcome" where
  "resetAssessmentBtn_onclick p = Done (stopTimer p)"

subsection \<open>Reading the state\<close>

text \<open>
  The flag stored for a step: the entry \<^verbatim>\<open>courseRoadmapDone[courseId][stepId]\<close> of the
  state, \<open>None\<close> when the course or the step has no entry.
\<close>

definition flagAt :: "state \<Rightarrow> string \<Rightarrow> string \<Rightarrow> bool option" where
  "flagAt st courseId stepId =
     (case orEmpty (courseRoadmapDone st) courseId of
        Some steps \<Rightarrow> steps stepId
      | None \<Rightarrow> None)"

text \<open>A step is marked in a state when the flag stored for it is \<^verbatim>\<open>true\<close>.\<close>

definition marked :: "state \<Rightarrow> string \<Rightarrow> string \<Rightarrow> bool" where
  "marked st courseId stepId = (flagAt st courseId stepId = Some True)"

text \<open>\<^verbatim>\<open>renderTopbar\<close>: the XP chip shows \<^verbatim>\<open>st.xp || 0\<close> of the state just read.\<close>

definition xpCount :: "date \<Rightarrow> page \<Rightarrow> int" where
  "xpCount d p = orZero (xp (getState d p))"

text \<open>
  The comments stored for a post: the entry \<^verbatim>\<open>community.comments[postId]\<close> of the
  state, \<open>None\<close> when the post has no entry.
\<close>

definition commentsAt :: "state \<Rightarrow> string \<Rightarrow> string list option" where
  "commentsAt st ident =
     (case community st of
        Val c \<Rightarrow> orEmpty (comments c) ident
      | _ \<Rightarrow> None)"

subsection \<open>Events\<close>

text \<open>
  The user's actions and the timer, each with what it reads from the clock and the
  form and finds on the platform; \<open>a\<close> is \<^verbatim>\<open>DATA.assessment\<close>.
\<close>

datatype event =
    LessonComplete date platform string
  | BonusXp date
  | ToggleStep date platform string string
  | AnswerMcq date int int
  | StartAssessment int nat date "string \<rightharpoonup> int"
  | Tick int date "string \<rightharpoonup> int"
  | SubmitAssessment bool int date "string \<rightharpoonup> int"
  | ResetAssessment
  | SaveDraft date string string
  | CommunityClick date platform target
  | SelectCourse date string

fun fire :: "quiz slot \<Rightarrow> event \<Rightarrow> page \<Rightarrow> outcome" where
  "fire a (LessonComplete d E cid) p = lessonBtn_onclick d E cid p"
| "fire a (BonusXp d) p = xpBtn_onclick d p"
| "fire a (ToggleStep d E cid stepId) p = courseRoadmapList_onclick d E cid stepId p"
| "fire a (AnswerMcq d i answer) p = mcqChoice_onclick d i answer p"
| "fire a (StartAssessment now h d checked) p = startAssessment now h d a checked p"
| "fire a (Tick now d checked) p = tickTimer now d a checked p"
| "fire a (SubmitAssessment isAuto now d checked) p = submitAssessment isAuto now d a checked p"
| "fire a ResetAssessment p = resetAssessmentBtn_onclick p"
| "fire a (SaveDraft d ident code) p = saveCodeBtn_onclick d ident code p"
| "fire a (CommunityClick d E t) p = communityList_onclick d E t p"
| "fire a (SelectCourse d ident) p = courseList_onclick d ident p"

fun run :: "quiz slot \<Rightarrow> event list \<Rightarrow> page \<Rightarrow> page" where
  "run a [] p = p"
| "run a (e # es) p = run a es (after (fire a e p))"

subsection \<open>Documents with every key\<close>

text \<open>
  A state in which no top-level key and no key of the streak is missing; what
  \<open>getState\<close> returns is one, and reading it back after saving gives it again.
\<close>

definition full :: "state \<Rightarrow> bool" where
  "full st =
     (xp st \<noteq> Missing \<and> courseProgress st \<noteq> Missing \<and> selectedCourseId st \<noteq> Missing \<and>
      roadmapDone st \<noteq> Missing \<and> courseRoadmapDone st \<noteq> Missing \<and> assessment st \<noteq> Missing \<and>
      codingDrafts st \<noteq> Missing \<and> community st \<noteq> Missing \<and>
      (case streak st of Val t \<Rightarrow> count t \<noteq> Missing \<and> lastDate t \<noteq> Missing | _ \<Rightarrow> False))"

subsection \<open>Example values\<close>

text \<open>The fifth of March 2024, and a document saved before most keys existed.\<close>

definition march5 :: date where
  "march5 = \<lparr>getFullYear = 2024, getMonth = 2, getDate = 5\<rparr>"

definition oldDoc :: state where
  "oldDoc =
     \<lparr>streak = Val \<lparr>count = Val 5, lastDate = Missing\<rparr>,
      xp = Val 300,
      courseProgress = Missing,
      selectedCourseId = Missing,
      roadmapDone = Missing,
      courseRoadmapDone = Missing,
      assessment = Missing,
      codingDrafts = Missing,
      community = Val \<lparr>likes = Missing, comments = Val Map.empty\<rparr>\<rparr>"

definition oldPage :: page where
  "oldPage = \<lparr>mentora_state = Text (Val oldDoc), assessmentTimer = Null, assessmentEndsAt = Null\<rparr>"

definition freshPage :: page where
  "freshPage = \<lparr>mentora_state = NoItem, assessmentTimer = Null, assessmentEndsAt = Null\<rparr>"

text \<open>
  A calendar for three days of March 2024, and the default state with a given
  streak.
\<close>

definition marchDays :: "string \<Rightarrow> int option" where
  "marchDays = map_of [(''2024-03-02'', 19784), (''2024-03-04'', 19786), (''2024-03-05'', 19787)]"

definition streakOn :: "int slot \<Rightarrow> string slot \<Rightarrow> state" where
  "streakOn c l = (getDefaultState march5)\<lparr>streak := Val \<lparr>count = c, lastDate = l\<rparr>\<rparr>"

text \<open>
  A quiz of four questions with three right answers checked, on a page whose
  assessment is running and that has nothing stored.
\<close>

definition quiz4 :: "quiz slot" where
  "quiz4 = Val \<lparr>timeSeconds = Val 90,
                 questions = Val [\<lparr>qid = ''a1'', answerIndex = 2\<rparr>, \<lparr>qid = ''a2'', answerIndex = 0\<rparr>,
                                  \<lparr>qid = ''a3'', answerIndex = 1\<rparr>, \<lparr>qid = ''a4'', answerIndex = 3\<rparr>]\<rparr>"

definition answers4 :: "string \<rightharpoonup> int" where
  "answers4 = map_of [(''a1'', 2), (''a2'', 0), (''a3'', 1), (''a4'', 0)]"

definition runningPage :: page where
  "runningPage = \<lparr>mentora_state = NoItem, assessmentTimer = Val 7, assessmentEndsAt = Val 90000\<rparr>"

text \<open>
  A platform for the examples: the names of the functions of \<^verbatim>\<open>Object.prototype\<close> in
  ECMAScript 2023 and their text on V8. Of the key of an inherited member it says
  that it reads \<^verbatim>\<open>undefined\<close> and can be written, which holds of keys such as \<^verbatim>\<open>r1\<close>;
  no example here reads one.
\<close>

definition ecma :: platform where
  "ecma =
     \<lparr>inherits = (\<lambda>k. k \<in> set [''constructor'', ''hasOwnProperty'', ''isPrototypeOf'',
                                  ''propertyIsEnumerable'', ''toLocaleString'', ''toString'',
                                  ''valueOf'', ''__defineGetter__'', ''__defineSetter__'',
                                  ''__lookupGetter__'', ''__lookupSetter__'']),
      memberText = (\<lambda>k. if k = ''__proto__'' then ''[object Object]''
                          else ''function '' @ (if k = ''constructor'' then ''Object'' else k) @
                               ''() { [native code] }''),
      probe = (\<lambda>c k. Member False True)\<rparr>"

text \<open>
  A quiz of forty questions, and the answers of a candidate who has the first
  twenty-three right.
\<close>

definition quiz40 :: "quiz slot" where
  "quiz40 = Val \<lparr>timeSeconds = Val 600,
                  questions = Val (map (\<lambda>i. \<lparr>qid = decimal i, answerIndex = 1\<rparr>) [0..<40])\<rparr>"

definition answers23 :: "string \<rightharpoonup> int" where
  "answers23 = map_of (map (\<lambda>i. (decimal i, if i < 23 then 1 else 0)) [0..<40])"

text \<open>
  A page whose stored state was saved before comments existed, and a page whose
  stored state has one comment under the post \<open>p1\<close>.
\<close>

definition likesOnly :: state where
  "likesOnly =
     (getDefaultState march5)
       \<lparr>community := Val \<lparr>likes = Val [''p1'' \<mapsto> Count 2], comments = Missing\<rparr>\<rparr>"

definition likesOnlyPage :: page where
  "likesOnlyPage =
     \<lparr>mentora_state = Text (Val likesOnly), assessmentTimer = Null, assessmentEndsAt = Null\<rparr>"

definition talkPage :: page where
  "talkPage =
     \<lparr>mentora_state =
        Text (Val ((getDefaultState march5)
          \<lparr>community := Val \<lparr>likes = Val Map.empty, comments = Val [''p1'' \<mapsto> [''hi'']]\<rparr>\<rparr>)),
      assessmentTimer = Null, assessmentEndsAt = Null\<rparr>"

section \<open>Properties\<close>

subsection \<open>Basic facts\<close>

lemma spread_if: "spread d s = (if s = Missing then d else s)"
  by (cases s) simp_all

lemma march5_ISO: "todayISO march5 = ''2024-03-05''"
  by (simp add: march5_def todayISO_def String_of_def padStart_def digit_def)

subsection \<open>Doubles\<close>

text \<open>
  The rounding to a binary64: the exponent is the one of the binade of the number
  (\<open>exponent_bounds\<close>), the integer that \<open>roundEven\<close> picks is a nearest one
  (\<open>roundEven_near\<close>), and the sign stays. For a number in the normal range the
  result has a significand of 53 bits (\<open>binary64_significand\<close>) and lies within half
  a unit in the last place of the number (\<open>binary64_near\<close>). One tenth becomes the
  double that prints as \<^verbatim>\<open>0.1\<close>.
\<close>

lemma bitlen_powi:
  assumes "0 < a"
  shows "(2::rat) powi (bitlen a - 1) \<le> of_int a" "of_int a < (2::rat) powi (bitlen a)"
proof -
  from bitlen_bounds [OF assms] have l: "2 ^ nat (bitlen a - 1) \<le> a" and u: "a < 2 ^ nat (bitlen a)"
    by simp_all
  have p: "1 \<le> bitlen a" using assms bitlen_eq_zero_iff [of a] bitlen_nonneg [of a] by linarith
  have "(2::rat) powi (bitlen a - 1) = of_int (2 ^ nat (bitlen a - 1))"
    using p by (simp add: power_int_def)
  also have "\<dots> \<le> of_int a" using l by (simp only: of_int_le_iff)
  finally show "(2::rat) powi (bitlen a - 1) \<le> of_int a" .
  have "(of_int a :: rat) < of_int (2 ^ nat (bitlen a))" using u by (simp only: of_int_less_iff)
  also have "\<dots> = (2::rat) powi (bitlen a)" using p by (simp add: power_int_def)
  finally show "of_int a < (2::rat) powi (bitlen a)" .
qed

lemma exponent_bounds:
  assumes "0 < x"
  shows "2 powi (exponent x) \<le> x" "x < 2 powi (exponent x + 1)"
proof -
  obtain a b where q: "quotient_of x = (a, b)" by (cases "quotient_of x")
  then have b: "0 < b" and x: "x = of_int a / of_int b"
    using quotient_of_denom_pos [OF q] quotient_of_div [OF q] by simp_all
  have a: "0 < a" using assms b x by (simp add: zero_less_divide_iff)
  define k where "k = bitlen a - bitlen b"
  note A = bitlen_powi [OF a] and B = bitlen_powi [OF b]
  have bp: "(0::rat) < of_int b" using b by simp
  have lo: "(2::rat) powi (k - 1) \<le> x"
  proof -
    have "(2::rat) powi (k - 1) * of_int b \<le> 2 powi (k - 1) * 2 powi (bitlen b)"
      using B(2) by (intro mult_left_mono) simp_all
    also have "\<dots> = 2 powi (bitlen a - 1)"
      by (simp add: k_def power_int_add [symmetric] algebra_simps)
    also have "\<dots> \<le> of_int a" by (rule A(1))
    finally show ?thesis using bp by (simp add: x pos_le_divide_eq)
  qed
  have hi: "x < (2::rat) powi (k + 1)"
  proof -
    have "(of_int a :: rat) < 2 powi (bitlen a)" by (rule A(2))
    also have "\<dots> = 2 powi (k + 1) * 2 powi (bitlen b - 1)"
      by (simp add: k_def power_int_add [symmetric] algebra_simps)
    also have "\<dots> \<le> 2 powi (k + 1) * of_int b"
      using B(1) by (intro mult_left_mono) simp_all
    finally show ?thesis using bp by (simp add: x pos_divide_less_eq)
  qed
  have e: "exponent x = (if 2 powi k \<le> x then k else k - 1)"
    by (simp add: exponent_def q k_def)
  show "2 powi (exponent x) \<le> x" using lo by (simp add: e)
  show "x < 2 powi (exponent x + 1)" using hi by (simp add: e not_le)
qed

lemma roundEven_near: "\<bar>of_int (roundEven m) - m\<bar> \<le> 1 / 2"
proof -
  define r where "r = m - of_int \<lfloor>m\<rfloor>"
  have r: "0 \<le> r" "r < 1" unfolding r_def by linarith+
  have m: "m = of_int \<lfloor>m\<rfloor> + r" by (simp add: r_def)
  consider "r < 1 / 2" | "1 / 2 < r" | "r = 1 / 2" by linarith
  then show ?thesis
  proof cases
    case 1
    then have "roundEven m = \<lfloor>m\<rfloor>" by (simp add: roundEven_def Let_def r_def)
    then show ?thesis using r 1 by (simp add: r_def [symmetric] abs_le_iff)
  next
    case 2
    then have "roundEven m = \<lfloor>m\<rfloor> + 1" by (simp add: roundEven_def Let_def r_def)
    then have "of_int (roundEven m) - m = 1 - r" by (simp add: r_def)
    then show ?thesis using r 2 by (simp add: abs_le_iff)
  next
    case 3
    then have "roundEven m = \<lfloor>m\<rfloor> \<or> roundEven m = \<lfloor>m\<rfloor> + 1"
      by (simp add: roundEven_def Let_def r_def)
    then have "of_int (roundEven m) - m = - r \<or> of_int (roundEven m) - m = 1 - r"
      by (auto simp: r_def)
    then show ?thesis using 3 by (auto simp: abs_le_iff)
  qed
qed

lemma roundEven_nonneg: "0 \<le> m \<Longrightarrow> 0 \<le> roundEven m"
  unfolding roundEven_def Let_def by (auto intro: add_nonneg_nonneg)

lemma binary64_nonneg: "0 \<le> x \<Longrightarrow> 0 \<le> binary64 x"
  unfolding binary64_def Let_def
  by (auto intro!: mult_nonneg_nonneg roundEven_nonneg divide_nonneg_nonneg)

lemma binary64_nonpos: "x \<le> 0 \<Longrightarrow> binary64 x \<le> 0"
proof (cases "x = 0")
  case True
  then show ?thesis by (simp add: binary64_def)
next
  case False
  assume "x \<le> 0"
  with False have n: "x < 0" by simp
  define q :: rat where "q = 2 powi (max (exponent \<bar>x\<bar>) (- 1022) - 52)"
  have q: "0 < q" by (simp add: q_def)
  have r: "0 \<le> roundEven (\<bar>x\<bar> / q)" using q by (intro roundEven_nonneg) simp
  have "binary64 x = - (of_int (roundEven (\<bar>x\<bar> / q)) * q)"
    using n False by (simp add: binary64_def Let_def q_def)
  also have "\<dots> \<le> 0" using r q by simp
  finally show ?thesis .
qed

lemma binary64_near:
  assumes "0 < x" and "- 1022 \<le> exponent x"
  shows "\<bar>binary64 x - x\<bar> \<le> 2 powi (exponent x - 53)"
proof -
  define q :: rat where "q = 2 powi (exponent x - 52)"
  have q: "0 < q" by (simp add: q_def)
  have b: "binary64 x = of_int (roundEven (x / q)) * q"
    using assms by (simp add: binary64_def Let_def q_def max_def)
  have "binary64 x - x = (of_int (roundEven (x / q)) - x / q) * q"
    using q by (simp add: b left_diff_distrib)
  then have "\<bar>binary64 x - x\<bar> = \<bar>of_int (roundEven (x / q)) - x / q\<bar> * q"
    using q by (simp add: abs_mult)
  also have "\<dots> \<le> (1 / 2) * q"
    using roundEven_near [of "x / q"] q by (intro mult_right_mono) simp_all
  also have "\<dots> = 2 powi (exponent x - 53)"
    by (simp add: q_def power_int_diff)
  finally show ?thesis .
qed

lemma binary64_significand:
  assumes "0 < x" and "- 1022 \<le> exponent x"
  shows "\<exists>m. binary64 x = of_int m * 2 powi (exponent x - 52) \<and> 2 ^ 52 \<le> m \<and> m \<le> 2 ^ 53"
proof -
  define q :: rat where "q = 2 powi (exponent x - 52)"
  have q: "0 < q" by (simp add: q_def)
  define m where "m = roundEven (x / q)"
  have b: "binary64 x = of_int m * q"
    using assms by (simp add: binary64_def Let_def q_def max_def m_def)
  note e = exponent_bounds [OF assms(1)]
  have lo: "2 ^ 52 \<le> x / q"
  proof -
    have "(2::rat) ^ 52 * q = 2 powi (exponent x)"
      by (simp add: q_def power_int_diff)
    then show ?thesis using e(1) q by (simp add: pos_le_divide_eq)
  qed
  have hi: "x / q < 2 ^ 53"
  proof -
    have "(2::rat) ^ 53 * q = 2 powi (exponent x + 1)"
      by (simp add: q_def power_int_diff power_int_add)
    then show ?thesis using e(2) q by (simp add: pos_divide_less_eq)
  qed
  have f1: "2 ^ 52 \<le> \<lfloor>x / q\<rfloor>" using lo by (simp add: le_floor_iff)
  have f2: "\<lfloor>x / q\<rfloor> < 2 ^ 53" using hi by (simp add: floor_less_iff)
  have "m = \<lfloor>x / q\<rfloor> \<or> m = \<lfloor>x / q\<rfloor> + 1"
    by (simp add: m_def roundEven_def Let_def)
  then have "2 ^ 52 \<le> m \<and> m \<le> 2 ^ 53" using f1 f2 by auto
  with b show ?thesis unfolding q_def by blast
qed

lemma binary64_tenth: "binary64 (1 / 10) = 3602879701896397 / 36028797018963968"
  by code_simp

subsection \<open>Rank\<close>

lemma computeRank_cases:
  "computeRank x =
     (if x < 0 then \<lparr>current = ''Beginner'', nxt = Val 300, rmin = 0, pct = 0\<rparr>
      else if x < 300 then
        \<lparr>current = ''Beginner'', nxt = Val 300, rmin = 0,
         pct = clamp (binary64 (binary64 (of_int x / 300) * 100)) 0 100\<rparr>
      else if x < 700 then
        \<lparr>current = ''Intermediate'', nxt = Val 700, rmin = 300,
         pct = clamp (binary64 (binary64 (of_int (x - 300) / 400) * 100)) 0 100\<rparr>
      else if x < 1200 then
        \<lparr>current = ''Advanced'', nxt = Val 1200, rmin = 700,
         pct = clamp (binary64 (binary64 (of_int (x - 700) / 500) * 100)) 0 100\<rparr>
      else \<lparr>current = ''Pro'', nxt = Null, rmin = 1200, pct = 100\<rparr>)"
proof -
  have n: "clamp (binary64 (binary64 (of_int x / 300) * 100)) 0 100 = 0" if "x < 0"
  proof -
    from that have "(of_int x / 300 :: rat) \<le> 0" by simp
    then have "binary64 (of_int x / 300) \<le> 0" by (rule binary64_nonpos)
    then have "binary64 (of_int x / 300) * 100 \<le> 0" by simp
    then have "binary64 (binary64 (of_int x / 300) * 100) \<le> 0" by (rule binary64_nonpos)
    then show ?thesis by (simp add: clamp_def max_def min_def)
  qed
  show ?thesis
    by (simp add: computeRank_def levels_def Let_def n)
qed

lemma tierIndex_names:
  "tierIndex ''Beginner'' = 0" "tierIndex ''Intermediate'' = 1"
  "tierIndex ''Advanced'' = 2" "tierIndex ''Pro'' = 3"
  by (simp_all add: tierIndex_def levels_def)

text \<open>
  C6. For every XP total \<open>x \<ge> 0\<close>, \<open>computeRank x\<close> is the row of the table with the
  highest floor that is at most \<open>x\<close>: Beginner on [0,300), Intermediate on [300,700),
  Advanced on [700,1200), Pro from 1200 on. Its name is one of the four, and for
  \<open>x \<le> y\<close> the tier of \<open>x\<close> stands at or before the tier of \<open>y\<close> in the table.
\<close>

theorem computeRank_tiers:
  "0 \<le> x \<Longrightarrow>
     current (computeRank x) =
       (if x < 300 then ''Beginner'' else if x < 700 then ''Intermediate''
        else if x < 1200 then ''Advanced'' else ''Pro'') \<and>
     (\<exists>l \<in> set levels. current (computeRank x) = name l \<and> rmin (computeRank x) = lmin l \<and>
        nxt (computeRank x) = lnext l) \<and>
     rmin (computeRank x) \<le> x \<and>
     (\<forall>l \<in> set levels. lmin l \<le> x \<longrightarrow> lmin l \<le> rmin (computeRank x)) \<and>
     current (computeRank x) \<in> {''Beginner'', ''Intermediate'', ''Advanced'', ''Pro''} \<and>
     (\<forall>y. x \<le> y \<longrightarrow>
        tierIndex (current (computeRank x)) \<le> tierIndex (current (computeRank y)))"
  by (simp add: computeRank_cases levels_def tierIndex_names)

theorem computeRank_tiers_witness:
  "(0::int) \<le> 450 \<and> current (computeRank 450) = ''Intermediate'' \<and>
   rmin (computeRank 450) = 300 \<and> rmin (computeRank 450) \<le> 450 \<and>
   tierIndex (current (computeRank 450)) \<le> tierIndex (current (computeRank 1300))"
proof -
  have h: "(0::int) \<le> 450" by simp
  note t = computeRank_tiers [OF h]
  from t have c: "current (computeRank 450) = ''Intermediate''" by simp
  from t have r: "rmin (computeRank 450) \<le> 450" by blast
  from t have "\<forall>y. 450 \<le> y \<longrightarrow>
      tierIndex (current (computeRank 450)) \<le> tierIndex (current (computeRank y))"
    by blast
  then have m: "tierIndex (current (computeRank 450)) \<le> tierIndex (current (computeRank 1300))"
    by simp
  have "rmin (computeRank 450) = 300" by (simp add: computeRank_cases)
  with h c m r show ?thesis by simp
qed

text \<open>
  C9. For a negative XP no row of the table has a floor at or below it;
  \<open>computeRank\<close> then falls back to the first row, Beginner, with the percentage
  clamped to 0.
\<close>

theorem computeRank_negative:
  "x < 0 \<Longrightarrow>
     (\<forall>l \<in> set levels. \<not> lmin l \<le> x) \<and>
     find (\<lambda>l. x \<ge> lmin l) (rev levels) = None \<and>
     computeRank x = \<lparr>current = ''Beginner'', nxt = Val 300, rmin = 0, pct = 0\<rparr>"
  by (simp add: computeRank_cases levels_def)

theorem computeRank_negative_witness:
  "(-40::int) < 0 \<and> computeRank (-40) = \<lparr>current = ''Beginner'', nxt = Val 300, rmin = 0, pct = 0\<rparr>"
  using computeRank_negative [of "-40"] by simp

subsection \<open>Loading the state\<close>

lemma getState_stored:
  "mentora_state p = Text (Val st) \<Longrightarrow>
     getState d p =
       \<lparr>streak = Val (spreadStreak \<lparr>count = Val 1, lastDate = Val (todayISO d)\<rparr> (ownKeys (streak st))),
        xp = spread (Val 120) (xp st),
        courseProgress = spread (Val Map.empty) (courseProgress st),
        selectedCourseId = spread Null (selectedCourseId st),
        roadmapDone = spread (Val Map.empty) (roadmapDone st),
        courseRoadmapDone = spread (Val Map.empty) (courseRoadmapDone st),
        assessment = spread (Val \<lparr>lastScore = Null, lastTakenAt = Null\<rparr>) (assessment st),
        codingDrafts = spread (Val Map.empty) (codingDrafts st),
        community = spread (Val \<lparr>likes = Val Map.empty, comments = Val Map.empty\<rparr>) (community st)\<rparr>"
  by (simp add: getState_def safeJsonParse_def getDefaultState_def ownKeys_def Let_def)

lemma getState_default:
  "\<forall>st. mentora_state p \<noteq> Text (Val st) \<Longrightarrow> getState d p = getDefaultState d"
  by (cases "mentora_state p"; simp add: getState_def safeJsonParse_def split: slot.splits)

text \<open>
  C1. \<open>getState\<close> returns the defaults when nothing usable is stored (no item, a text
  that does not parse, or \<^verbatim>\<open>null\<close>). Otherwise every top-level key that the stored
  object lacks keeps its default, every top-level key that it has takes the stored
  value, and the streak is merged key by key: a stored \<open>count\<close> or \<open>lastDate\<close> wins, a
  missing one keeps the default. In every case no top-level key of the result is
  missing.
\<close>

theorem getState_merge:
  "((\<forall>st. mentora_state p \<noteq> Text (Val st)) \<longrightarrow> getState d p = getDefaultState d) \<and>
   (\<forall>st. mentora_state p = Text (Val st) \<longrightarrow>
      xp (getState d p) = (if xp st = Missing then xp (getDefaultState d) else xp st) \<and>
      courseProgress (getState d p) =
        (if courseProgress st = Missing then courseProgress (getDefaultState d) else courseProgress st) \<and>
      selectedCourseId (getState d p) =
        (if selectedCourseId st = Missing then selectedCourseId (getDefaultState d) else selectedCourseId st) \<and>
      roadmapDone (getState d p) =
        (if roadmapDone st = Missing then roadmapDone (getDefaultState d) else roadmapDone st) \<and>
      courseRoadmapDone (getState d p) =
        (if courseRoadmapDone st = Missing then courseRoadmapDone (getDefaultState d) else courseRoadmapDone st) \<and>
      assessment (getState d p) =
        (if assessment st = Missing then assessment (getDefaultState d) else assessment st) \<and>
      codingDrafts (getState d p) =
        (if codingDrafts st = Missing then codingDrafts (getDefaultState d) else codingDrafts st) \<and>
      community (getState d p) =
        (if community st = Missing then community (getDefaultState d) else community st) \<and>
      streak (getState d p) =
        Val \<lparr>count = (case streak st of
                         Val t \<Rightarrow> if count t = Missing then Val 1 else count t
                       | _ \<Rightarrow> Val 1),
             lastDate = (case streak st of
                         Val t \<Rightarrow> if lastDate t = Missing then Val (todayISO d) else lastDate t
                       | _ \<Rightarrow> Val (todayISO d))\<rparr>) \<and>
   streak (getState d p) \<noteq> Missing \<and> xp (getState d p) \<noteq> Missing \<and>
   courseProgress (getState d p) \<noteq> Missing \<and> selectedCourseId (getState d p) \<noteq> Missing \<and>
   roadmapDone (getState d p) \<noteq> Missing \<and> courseRoadmapDone (getState d p) \<noteq> Missing \<and>
   assessment (getState d p) \<noteq> Missing \<and> codingDrafts (getState d p) \<noteq> Missing \<and>
   community (getState d p) \<noteq> Missing"
proof (cases "\<exists>st. mentora_state p = Text (Val st)")
  case True
  then obtain st where st: "mentora_state p = Text (Val st)" by blast
  show ?thesis
    by (simp add: st getState_stored [OF st] getDefaultState_def spread_if spreadStreak_def
        ownKeys_def split: slot.splits)
next
  case False
  then have "\<forall>st. mentora_state p \<noteq> Text (Val st)" by blast
  from getState_default [OF this] False show ?thesis
    by (simp add: getDefaultState_def)
qed

theorem getState_merge_witness:
  "mentora_state oldPage = Text (Val oldDoc) \<and>
   xp (getState march5 oldPage) = Val 300 \<and>
   courseProgress (getState march5 oldPage) = Val Map.empty \<and>
   assessment (getState march5 oldPage) = Val \<lparr>lastScore = Null, lastTakenAt = Null\<rparr> \<and>
   streak (getState march5 oldPage) = Val \<lparr>count = Val 5, lastDate = Val ''2024-03-05''\<rparr> \<and>
   getState march5 freshPage = getDefaultState march5"
proof -
  have s: "mentora_state oldPage = Text (Val oldDoc)" by (simp add: oldPage_def)
  have f: "\<forall>st. mentora_state freshPage \<noteq> Text (Val st)" by (simp add: freshPage_def)
  from getState_merge [of oldPage march5] s
  have "xp (getState march5 oldPage) = Val 300"
    and "courseProgress (getState march5 oldPage) = Val Map.empty"
    and "assessment (getState march5 oldPage) = Val \<lparr>lastScore = Null, lastTakenAt = Null\<rparr>"
    and "streak (getState march5 oldPage) = Val \<lparr>count = Val 5, lastDate = Val ''2024-03-05''\<rparr>"
    by (simp_all add: oldDoc_def getDefaultState_def march5_ISO)
  moreover from getState_merge [of freshPage march5] f
  have "getState march5 freshPage = getDefaultState march5" by blast
  ultimately show ?thesis using s by simp
qed

text \<open>
  C10. The key-by-key merge is for the streak alone. For each of the other eight keys
  a stored value replaces the default as a whole, so a stored \<open>community\<close> without
  \<open>likes\<close> (or without \<open>comments\<close>) and a stored \<open>assessment\<close> without \<open>lastScore\<close>
  come back as they were stored, the missing key still missing; a stored streak
  without \<open>lastDate\<close> gets the default date.
\<close>

theorem getState_replaces_nested:
  "mentora_state p = Text (Val st) \<Longrightarrow>
     (xp st \<noteq> Missing \<longrightarrow> xp (getState d p) = xp st) \<and>
     (courseProgress st \<noteq> Missing \<longrightarrow> courseProgress (getState d p) = courseProgress st) \<and>
     (selectedCourseId st \<noteq> Missing \<longrightarrow> selectedCourseId (getState d p) = selectedCourseId st) \<and>
     (roadmapDone st \<noteq> Missing \<longrightarrow> roadmapDone (getState d p) = roadmapDone st) \<and>
     (courseRoadmapDone st \<noteq> Missing \<longrightarrow> courseRoadmapDone (getState d p) = courseRoadmapDone st) \<and>
     (assessment st \<noteq> Missing \<longrightarrow> assessment (getState d p) = assessment st) \<and>
     (codingDrafts st \<noteq> Missing \<longrightarrow> codingDrafts (getState d p) = codingDrafts st) \<and>
     (community st \<noteq> Missing \<longrightarrow> community (getState d p) = community st) \<and>
     (\<forall>c. community st = Val c \<and> likes c = Missing \<longrightarrow>
        (\<exists>c'. community (getState d p) = Val c' \<and> likes c' = Missing \<and>
           likes c' \<noteq> Val Map.empty)) \<and>
     (\<forall>c. community st = Val c \<and> comments c = Missing \<longrightarrow>
        (\<exists>c'. community (getState d p) = Val c' \<and> comments c' = Missing)) \<and>
     (\<forall>a. assessment st = Val a \<and> lastScore a = Missing \<longrightarrow>
        (\<exists>a'. assessment (getState d p) = Val a' \<and> lastScore a' = Missing)) \<and>
     (\<forall>t. streak st = Val t \<and> lastDate t = Missing \<longrightarrow>
        (\<exists>t'. streak (getState d p) = Val t' \<and> lastDate t' = Val (todayISO d)))"
  by (simp add: getState_stored spread_if spreadStreak_def ownKeys_def)

theorem getState_replaces_nested_witness:
  "mentora_state oldPage = Text (Val oldDoc) \<and>
   community (getState march5 oldPage) = Val \<lparr>likes = Missing, comments = Val Map.empty\<rparr> \<and>
   community (getDefaultState march5) = Val \<lparr>likes = Val Map.empty, comments = Val Map.empty\<rparr>"
proof -
  have s: "mentora_state oldPage = Text (Val oldDoc)" by (simp add: oldPage_def)
  from getState_replaces_nested [OF s, of march5]
  have "community (getState march5 oldPage) = community oldDoc"
    by (simp add: oldDoc_def)
  then show ?thesis using s by (simp add: oldDoc_def getDefaultState_def)
qed

text \<open>A like on such a document reads \<^verbatim>\<open>undefined[id]\<close> and throws.\<close>

lemma like_raises_on_oldPage:
  "communityList_onclick march5 ecma (LikeBtn ''p1'') oldPage = Raised TypeError oldPage"
  by (simp add: communityList_onclick.simps getState_stored oldPage_def oldDoc_def)

subsection \<open>Streak\<close>

lemma todayISO_nonempty: "todayISO d \<noteq> []"
  by (simp add: todayISO_def)

lemma orZero_Val: "orZero (Val n) = n"
  by simp

text \<open>
  C2. The streak rule. With no last date (the streak or its \<open>lastDate\<close> is missing,
  \<^verbatim>\<open>null\<close> or empty) the streak becomes count 1 dated today. With the last date equal
  to today nothing changes. Otherwise a day difference of exactly 1 adds exactly 1 to
  the count, any other difference (or an invalid date) sets the count to 1, and the
  last date becomes today. The result is always dated today, only the streak
  changes, and a second call with the same today returns the state of the first.
\<close>

theorem bumpStreak_rules:
  "((\<forall>s. streak st = Val s \<longrightarrow> \<not> truthyS (lastDate s)) \<longrightarrow>
      bumpStreakIfNeeded localDay d st = st\<lparr>streak := Val \<lparr>count = Val 1, lastDate = Val (todayISO d)\<rparr>\<rparr>) \<and>
   (\<forall>s. streak st = Val s \<and> lastDate s = Val (todayISO d) \<longrightarrow>
      bumpStreakIfNeeded localDay d st = st) \<and>
   (\<forall>s l. streak st = Val s \<and> lastDate s = Val l \<and> l \<noteq> [] \<and> l \<noteq> todayISO d \<longrightarrow>
      (diffDays localDay l (todayISO d) = Some 1 \<longrightarrow>
         bumpStreakIfNeeded localDay d st =
           st\<lparr>streak := Val \<lparr>count = Val (orZero (count s) + 1), lastDate = Val (todayISO d)\<rparr>\<rparr> \<and>
         (\<forall>n. count s = Val n \<longrightarrow>
            (\<exists>s1. streak (bumpStreakIfNeeded localDay d st) = Val s1 \<and> count s1 = Val (n + 1)))) \<and>
      (diffDays localDay l (todayISO d) \<noteq> Some 1 \<longrightarrow>
         bumpStreakIfNeeded localDay d st =
           st\<lparr>streak := Val \<lparr>count = Val 1, lastDate = Val (todayISO d)\<rparr>\<rparr>)) \<and>
   (\<exists>s1. streak (bumpStreakIfNeeded localDay d st) = Val s1 \<and> lastDate s1 = Val (todayISO d)) \<and>
   bumpStreakIfNeeded localDay d st = st\<lparr>streak := streak (bumpStreakIfNeeded localDay d st)\<rparr> \<and>
   bumpStreakIfNeeded localDay d (bumpStreakIfNeeded localDay d st) = bumpStreakIfNeeded localDay d st"
proof -
  have ne: "todayISO d \<noteq> []" by (rule todayISO_nonempty)
  show ?thesis
  proof (cases "streak st")
    case Missing
    then show ?thesis using ne by (simp add: bumpStreakIfNeeded_def Let_def)
  next
    case Null
    then show ?thesis using ne by (simp add: bumpStreakIfNeeded_def Let_def)
  next
    case (Val s)
    show ?thesis
    proof (cases "lastDate s")
      case Missing
      with Val show ?thesis using ne by (simp add: bumpStreakIfNeeded_def Let_def)
    next
      case Null
      with Val show ?thesis using ne by (simp add: bumpStreakIfNeeded_def Let_def)
    next
      case l: (Val l)
      with Val show ?thesis using ne
        by (cases s) (simp add: bumpStreakIfNeeded_def Let_def)
    qed
  qed
qed


theorem bumpStreak_rules_witness:
  "streak (bumpStreakIfNeeded marchDays march5 (streakOn (Val 5) (Val ''2024-03-04''))) =
     Val \<lparr>count = Val 6, lastDate = Val ''2024-03-05''\<rparr> \<and>
   streak (bumpStreakIfNeeded marchDays march5 (streakOn (Val 5) (Val ''2024-03-02''))) =
     Val \<lparr>count = Val 1, lastDate = Val ''2024-03-05''\<rparr> \<and>
   streak (bumpStreakIfNeeded marchDays march5 (streakOn (Val 5) Null)) =
     Val \<lparr>count = Val 1, lastDate = Val ''2024-03-05''\<rparr> \<and>
   bumpStreakIfNeeded marchDays march5 (streakOn (Val 5) (Val ''2024-03-05'')) =
     streakOn (Val 5) (Val ''2024-03-05'') \<and>
   bumpStreakIfNeeded marchDays march5
     (bumpStreakIfNeeded marchDays march5 (streakOn (Val 5) (Val ''2024-03-04''))) =
     bumpStreakIfNeeded marchDays march5 (streakOn (Val 5) (Val ''2024-03-04''))"
proof -
  have y: "diffDays marchDays ''2024-03-04'' ''2024-03-05'' = Some 1"
    by (simp add: diffDays_def marchDays_def)
  have o: "diffDays marchDays ''2024-03-02'' ''2024-03-05'' \<noteq> Some 1"
    by (simp add: diffDays_def marchDays_def)
  note r = bumpStreak_rules [where localDay = marchDays and d = march5]
  from r [of "streakOn (Val 5) (Val ''2024-03-04'')"] y
  have a: "streak (bumpStreakIfNeeded marchDays march5 (streakOn (Val 5) (Val ''2024-03-04''))) =
     Val \<lparr>count = Val 6, lastDate = Val ''2024-03-05''\<rparr>"
    by (simp add: streakOn_def march5_ISO)
  from r [of "streakOn (Val 5) (Val ''2024-03-02'')"] o
  have b: "streak (bumpStreakIfNeeded marchDays march5 (streakOn (Val 5) (Val ''2024-03-02''))) =
     Val \<lparr>count = Val 1, lastDate = Val ''2024-03-05''\<rparr>"
    by (simp add: streakOn_def march5_ISO)
  from r [of "streakOn (Val 5) Null"]
  have c: "streak (bumpStreakIfNeeded marchDays march5 (streakOn (Val 5) Null)) =
     Val \<lparr>count = Val 1, lastDate = Val ''2024-03-05''\<rparr>"
    by (simp add: streakOn_def march5_ISO)
  from r [of "streakOn (Val 5) (Val ''2024-03-05'')"]
  have e: "bumpStreakIfNeeded marchDays march5 (streakOn (Val 5) (Val ''2024-03-05'')) =
     streakOn (Val 5) (Val ''2024-03-05'')"
    by (simp add: streakOn_def march5_ISO)
  from r [of "streakOn (Val 5) (Val ''2024-03-04'')"]
  have i: "bumpStreakIfNeeded marchDays march5
     (bumpStreakIfNeeded marchDays march5 (streakOn (Val 5) (Val ''2024-03-04''))) =
     bumpStreakIfNeeded marchDays march5 (streakOn (Val 5) (Val ''2024-03-04''))"
    by blast
  from a b c e i show ?thesis by blast
qed

subsection \<open>Saving and reading back\<close>

lemma getState_saveState:
  "getState d (saveState st p) =
       \<lparr>streak = Val (spreadStreak \<lparr>count = Val 1, lastDate = Val (todayISO d)\<rparr> (ownKeys (streak st))),
        xp = spread (Val 120) (xp st),
        courseProgress = spread (Val Map.empty) (courseProgress st),
        selectedCourseId = spread Null (selectedCourseId st),
        roadmapDone = spread (Val Map.empty) (roadmapDone st),
        courseRoadmapDone = spread (Val Map.empty) (courseRoadmapDone st),
        assessment = spread (Val \<lparr>lastScore = Null, lastTakenAt = Null\<rparr>) (assessment st),
        codingDrafts = spread (Val Map.empty) (codingDrafts st),
        community = spread (Val \<lparr>likes = Val Map.empty, comments = Val Map.empty\<rparr>) (community st)\<rparr>"
  by (rule getState_stored) (simp add: saveState_def)

lemma getState_timers [simp]:
  "getState d (p\<lparr>assessmentTimer := t\<rparr>) = getState d p"
  "getState d (p\<lparr>assessmentEndsAt := e\<rparr>) = getState d p"
  "getState d (stopTimer p) = getState d p"
  by (simp_all add: getState_def stopTimer_def)

lemma saveState_timers [simp]:
  "assessmentEndsAt (saveState st p) = assessmentEndsAt p"
  "assessmentTimer (saveState st p) = assessmentTimer p"
  "mentora_state (saveState st p) = Text (Val st)"
  by (simp_all add: saveState_def)

lemma stopTimer_fields [simp]:
  "assessmentEndsAt (stopTimer p) = Null"
  "assessmentTimer (stopTimer p) = Null"
  "mentora_state (stopTimer p) = mentora_state p"
  by (simp_all add: stopTimer_def)

lemma submit_stops:
  "\<not> truthyN (assessmentEndsAt (after (submitAssessment b n d a c p)))"
  by (simp add: submitAssessment_def Let_def split: sum.splits)

lemma submit_idle:
  "\<not> truthyN (assessmentEndsAt p) \<Longrightarrow> submitAssessment b n d a c p = Done p"
  by (simp add: submitAssessment_def)

lemma tick_idle:
  "\<not> truthyN (assessmentEndsAt p) \<Longrightarrow> tickTimer n d a c p = Done p"
  by (cases "assessmentEndsAt p") (simp_all add: tickTimer_def)

lemma countCorrect_filter:
  "countCorrect checked qs n =
     n + length (filter (\<lambda>q. checked (qid q) = Some (answerIndex q)) qs)"
  by (induction qs arbitrary: n) (auto simp: Let_def split: option.splits)

lemma Math_round_nonneg: "0 \<le> x \<Longrightarrow> 0 \<le> Math_round x"
  by (simp add: Math_round_def)

lemma Math_round_of_int: "Math_round (of_int n) = n"
  by (simp add: Math_round_def) linarith

lemma Math_round_numeral: "Math_round (numeral k) = numeral k"
  using Math_round_of_int [of "numeral k"] by simp

lemma Math_round_mono: "x \<le> y \<Longrightarrow> Math_round x \<le> Math_round y"
  by (simp add: Math_round_def floor_mono)

lemma scorePct_nonneg: "0 \<le> scorePct c n"
  unfolding scorePct_def
  by (intro Math_round_nonneg binary64_nonneg mult_nonneg_nonneg divide_nonneg_nonneg) simp_all

lemma bonus_bounds: "0 \<le> s \<Longrightarrow> 0 \<le> bonus s"
  unfolding bonus_def
  by (intro Math_round_nonneg binary64_nonneg mult_nonneg_nonneg divide_nonneg_nonneg) simp_all

lemma bonus_75: "bonus 75 = 60"
  by code_simp

lemma scorePct_3_4: "scorePct 3 4 = 75"
  by code_simp

lemma scorePct_none: "scorePct 0 n = 0"
  using Math_round_of_int [of 0] by (simp add: scorePct_def binary64_def)

lemma xp_getState_date: "xp (getState d p) = xp (getState d' p)"
proof (cases "\<exists>st. mentora_state p = Text (Val st)")
  case True
  then obtain st where st: "mentora_state p = Text (Val st)" by blast
  show ?thesis by (simp add: getState_stored [OF st])
next
  case False
  then have n: "\<forall>st. mentora_state p \<noteq> Text (Val st)" by blast
  show ?thesis by (simp add: getState_default [OF n] getDefaultState_def)
qed

lemma xpCount_date: "xpCount d p = xpCount d' p"
  unfolding xpCount_def by (subst xp_getState_date [of d p d']) (rule refl)

lemma getState_keys:
  "xp (getState d p) \<noteq> Missing \<and> assessment (getState d p) \<noteq> Missing \<and>
   courseProgress (getState d p) \<noteq> Missing \<and> selectedCourseId (getState d p) \<noteq> Missing \<and>
   roadmapDone (getState d p) \<noteq> Missing \<and> courseRoadmapDone (getState d p) \<noteq> Missing \<and>
   codingDrafts (getState d p) \<noteq> Missing \<and> community (getState d p) \<noteq> Missing"
proof (cases "\<exists>st. mentora_state p = Text (Val st)")
  case True
  then obtain st where st: "mentora_state p = Text (Val st)" by blast
  show ?thesis by (simp add: getState_stored [OF st] spread_if)
next
  case False
  then have n: "\<forall>st. mentora_state p \<noteq> Text (Val st)" by blast
  show ?thesis by (simp add: getState_default [OF n] getDefaultState_def)
qed

subsection \<open>Assessment\<close>

lemma Math_round_0: "Math_round 0 = 0"
  using Math_round_of_int [of 0] by simp

lemma submit_running:
  "truthyN (assessmentEndsAt p) \<Longrightarrow> assessment (getState d p) = Val asm \<Longrightarrow>
     submitAssessment isAuto now d a checked p =
       Done (saveState
         ((getState d p)
            \<lparr>assessment := Val (asm\<lparr>lastScore := Val (scorePct (countCorrect checked (quizQuestions a) 0) (length (quizQuestions a))),
                                   lastTakenAt := Val now\<rparr>),
             xp := Val (orZero (xp (getState d p)) +
                        bonus (scorePct (countCorrect checked (quizQuestions a) 0) (length (quizQuestions a))))\<rparr>)
         (stopTimer p))"
  by (simp add: submitAssessment_def Let_def)

lemma runningPage_state: "getState d runningPage = getDefaultState d"
  by (simp add: getState_def safeJsonParse_def runningPage_def)

text \<open>
  What a submission does hold to: on a running assessment and a state whose
  \<open>assessment\<close> is an object it does not throw, the divisor \<open>max 1 questionCount\<close> is not
  0 and an empty question set scores 0, \<open>lastScore\<close> is the score it computed, and the
  XP grows by the bonus of that score; a score of 75 gives a bonus of 60
  (\<open>bonus_75\<close>).
\<close>

lemma submit_saves:
  assumes "truthyN (assessmentEndsAt p)" and "assessment (getState d p) = Val asm"
  shows "(let qs = quizQuestions a;
              correctCount = length (filter (\<lambda>q. checked (qid q) = Some (answerIndex q)) qs);
              score = scorePct correctCount (length qs);
              p1 = after (submitAssessment isAuto now d a checked p)
          in \<not> raised (submitAssessment isAuto now d a checked p) \<and>
             max 1 (length qs) \<noteq> 0 \<and>
             (qs = [] \<longrightarrow> score = 0) \<and>
             assessment (getState d' p1) = Val (asm\<lparr>lastScore := Val score, lastTakenAt := Val now\<rparr>) \<and>
             xp (getState d' p1) = Val (orZero (xp (getState d p)) + bonus score))"
proof -
  have cc: "countCorrect checked (quizQuestions a) 0 =
      length (filter (\<lambda>q. checked (qid q) = Some (answerIndex q)) (quizQuestions a))"
    by (simp add: countCorrect_filter)
  show ?thesis
    unfolding Let_def submit_running [OF assms] cc
    by (simp add: getState_saveState scorePct_none)
qed

text \<open>
  C5. The score that a submission saves is not \<open>round (100 * correctCount / max 1
  questionCount)\<close> for every question set. The code divides first and multiplies by
  100 after, in doubles: with 23 of 40 questions right the quotient is the double
  next below 0.575 and the product the double next below 57.5, so \<open>lastScore\<close> is 57,
  where the formula gives 58. With 29 of 200 right the score is 14, not 15, and the
  bonus 11, not 12.
\<close>

theorem submitAssessment_score_double:
  "truthyN (assessmentEndsAt runningPage) \<and>
   length (quizQuestions quiz40) = 40 \<and>
   length (filter (\<lambda>q. answers23 (qid q) = Some (answerIndex q)) (quizQuestions quiz40)) = 23 \<and>
   Math_round (100 * of_nat 23 / of_nat (max 1 40)) = 58 \<and>
   binary64 (binary64 (of_nat 23 / of_nat (max 1 40)) * 100) < 115 / 2 \<and>
   assessment (getState march5
       (after (submitAssessment False 1000 march5 quiz40 answers23 runningPage))) =
     Val \<lparr>lastScore = Val 57, lastTakenAt = Val 1000\<rparr> \<and>
   xp (getState march5
       (after (submitAssessment False 1000 march5 quiz40 answers23 runningPage))) =
     Val (120 + 46) \<and>
   scorePct 29 200 = 14 \<and> Math_round (100 * of_nat 29 / of_nat (max 1 200)) = 15 \<and>
   bonus 14 = 11 \<and> Math_round (of_int 15 / 100 * 80) = 12"
proof -
  have r: "truthyN (assessmentEndsAt runningPage)" by (simp add: runningPage_def)
  have a: "assessment (getState march5 runningPage) = Val \<lparr>lastScore = Null, lastTakenAt = Null\<rparr>"
    by (simp add: runningPage_state getDefaultState_def)
  have x: "xp (getState march5 runningPage) = Val 120"
    by (simp add: runningPage_state getDefaultState_def)
  have n: "length (quizQuestions quiz40) = 40"
    by (simp add: quizQuestions_def quiz40_def)
  have c: "length (filter (\<lambda>q. answers23 (qid q) = Some (answerIndex q)) (quizQuestions quiz40)) = 23"
    by code_simp
  have cc: "countCorrect answers23 (quizQuestions quiz40) 0 = 23"
    by (simp add: countCorrect_filter c)
  have f: "Math_round (100 * of_nat 23 / of_nat (max 1 40)) = 58"
    by code_simp
  have b: "binary64 (binary64 (of_nat 23 / of_nat (max 1 40)) * 100) < 115 / 2"
    by code_simp
  have s: "scorePct 23 40 = 57" by code_simp
  have bs: "bonus 57 = 46" by code_simp
  have sub: "submitAssessment False 1000 march5 quiz40 answers23 runningPage =
      Done (saveState
         ((getState march5 runningPage)
            \<lparr>assessment := Val \<lparr>lastScore = Val 57, lastTakenAt = Val 1000\<rparr>,
             xp := Val (120 + 46)\<rparr>)
         (stopTimer runningPage))"
    by (simp add: submit_running [OF r a] cc n s bs x)
  have l: "assessment (getState march5
       (after (submitAssessment False 1000 march5 quiz40 answers23 runningPage))) =
     Val \<lparr>lastScore = Val 57, lastTakenAt = Val 1000\<rparr>"
    by (simp add: sub getState_saveState)
  have g: "xp (getState march5
       (after (submitAssessment False 1000 march5 quiz40 answers23 runningPage))) =
     Val (120 + 46)"
    by (simp add: sub getState_saveState)
  have s2: "scorePct 29 200 = 14" by code_simp
  have f2: "Math_round (100 * of_nat 29 / of_nat (max 1 200)) = 15" by code_simp
  have b2: "bonus 14 = 11" by code_simp
  have f3: "Math_round (of_int 15 / 100 * 80) = 12" by code_simp
  from r n c f b l g s2 f2 b2 f3 show ?thesis by blast
qed

lemma tick_due:
  "assessmentEndsAt p = Val e \<Longrightarrow> e \<noteq> 0 \<Longrightarrow> e \<le> now \<Longrightarrow>
     tickTimer now d a c p = submitAssessment True now d a c p"
proof -
  assume e: "assessmentEndsAt p = Val e" "e \<noteq> 0" "e \<le> now"
  have "(of_int (e - now) :: rat) / 1000 \<le> 0" using e by simp
  then have "\<lceil>(of_int (e - now) :: rat) / 1000\<rceil> \<le> 0" by (simp add: ceiling_le_iff)
  then show ?thesis using e by (simp add: tickTimer_def Let_def)
qed

text \<open>
  C3. Whatever the first call of \<open>submitAssessment\<close> did (it scored and saved, it
  threw, or the assessment was not running), it leaves \<open>assessmentEndsAt\<close> cleared, so
  a second call, with any arguments, and a later tick of the timer return at the
  guard: the page, and with it the stored state and the XP, is exactly what the
  first call left. After two calls on a running assessment the XP is the XP before
  plus the bonus, once; on an assessment that was not running nothing changes. The
  same holds for a manual submission after the tick that submitted automatically.
\<close>

theorem submitAssessment_once:
  "(let p1 = after (submitAssessment b1 n1 d1 a1 c1 p);
        p2 = after (submitAssessment b2 n2 d2 a2 c2 p1)
    in submitAssessment b2 n2 d2 a2 c2 p1 = Done p1 \<and>
       tickTimer n2 d2 a2 c2 p1 = Done p1 \<and>
       p2 = p1 \<and>
       xpCount d p2 = xpCount d p1 \<and>
       (truthyN (assessmentEndsAt p) \<longrightarrow>
          (\<forall>asm. assessment (getState d1 p) = Val asm \<longrightarrow>
             xpCount d p2 =
               xpCount d p +
               bonus (scorePct (countCorrect c1 (quizQuestions a1) 0) (length (quizQuestions a1))))) \<and>
       (\<not> truthyN (assessmentEndsAt p) \<longrightarrow> p2 = p) \<and>
       (\<forall>e. assessmentEndsAt p = Val e \<and> e \<noteq> 0 \<and> e \<le> n1 \<longrightarrow>
          submitAssessment b2 n2 d2 a2 c2 (after (tickTimer n1 d1 a1 c1 p)) =
            Done (after (tickTimer n1 d1 a1 c1 p))))"
proof -
  define p1 where "p1 = after (submitAssessment b1 n1 d1 a1 c1 p)"
  have idle: "\<not> truthyN (assessmentEndsAt p1)"
    unfolding p1_def by (rule submit_stops)
  have s2: "submitAssessment b2 n2 d2 a2 c2 p1 = Done p1"
    by (rule submit_idle [OF idle])
  have t2: "tickTimer n2 d2 a2 c2 p1 = Done p1"
    by (rule tick_idle [OF idle])
  have once: "truthyN (assessmentEndsAt p) \<longrightarrow>
          (\<forall>asm. assessment (getState d1 p) = Val asm \<longrightarrow>
             xpCount d p1 =
               xpCount d p +
               bonus (scorePct (countCorrect c1 (quizQuestions a1) 0) (length (quizQuestions a1))))"
  proof (intro impI allI)
    fix asm
    assume r: "truthyN (assessmentEndsAt p)" and a: "assessment (getState d1 p) = Val asm"
    have "xp (getState d p1) =
        Val (orZero (xp (getState d1 p)) +
          bonus (scorePct (countCorrect c1 (quizQuestions a1) 0) (length (quizQuestions a1))))"
      unfolding p1_def by (simp add: submit_running [OF r a] getState_saveState)
    then show "xpCount d p1 =
               xpCount d p +
               bonus (scorePct (countCorrect c1 (quizQuestions a1) 0) (length (quizQuestions a1)))"
      by (simp add: xpCount_def xp_getState_date [of d p d1])
  qed
  have never: "\<not> truthyN (assessmentEndsAt p) \<longrightarrow> p1 = p"
    unfolding p1_def by (simp add: submit_idle)
  have auto: "\<forall>e. assessmentEndsAt p = Val e \<and> e \<noteq> 0 \<and> e \<le> n1 \<longrightarrow>
          submitAssessment b2 n2 d2 a2 c2 (after (tickTimer n1 d1 a1 c1 p)) =
            Done (after (tickTimer n1 d1 a1 c1 p))"
  proof (intro allI impI)
    fix e
    assume "assessmentEndsAt p = Val e \<and> e \<noteq> 0 \<and> e \<le> n1"
    then have "tickTimer n1 d1 a1 c1 p = submitAssessment True n1 d1 a1 c1 p"
      by (simp add: tick_due)
    then show "submitAssessment b2 n2 d2 a2 c2 (after (tickTimer n1 d1 a1 c1 p)) =
            Done (after (tickTimer n1 d1 a1 c1 p))"
      by (simp add: submit_idle submit_stops)
  qed
  from s2 t2 once never auto show ?thesis
    unfolding Let_def p1_def [symmetric] by (simp add: submit_idle)
qed

theorem submitAssessment_once_witness:
  "truthyN (assessmentEndsAt runningPage) \<and>
   xpCount march5 runningPage = 120 \<and>
   xpCount march5 (after (submitAssessment False 1000 march5 quiz4 answers4 runningPage)) = 180 \<and>
   xpCount march5
     (after (submitAssessment True 90000 march5 quiz4 answers4
        (after (submitAssessment False 1000 march5 quiz4 answers4 runningPage)))) = 180"
proof -
  have r: "truthyN (assessmentEndsAt runningPage)" by (simp add: runningPage_def)
  have a: "assessment (getState march5 runningPage) = Val \<lparr>lastScore = Null, lastTakenAt = Null\<rparr>"
    by (simp add: runningPage_state getDefaultState_def)
  have x: "xpCount march5 runningPage = 120"
    by (simp add: xpCount_def runningPage_state getDefaultState_def)
  have q: "countCorrect answers4 (quizQuestions quiz4) 0 = 3" "length (quizQuestions quiz4) = 4"
    by (simp_all add: quizQuestions_def quiz4_def answers4_def)
  have b: "bonus (scorePct 3 4) = 60"
    by (simp add: scorePct_3_4 bonus_75)
  from submitAssessment_once [of False 1000 march5 quiz4 answers4 runningPage True 90000 march5
      quiz4 answers4 march5]
  show ?thesis
    using r a x by (simp add: Let_def q b)
qed

subsection \<open>Full states\<close>

lemma full_getState: "full (getState d p)"
proof (cases "\<exists>st. mentora_state p = Text (Val st)")
  case True
  then obtain st where st: "mentora_state p = Text (Val st)" by blast
  show ?thesis
    by (simp add: full_def getState_stored [OF st] spread_if spreadStreak_def)
next
  case False
  then have n: "\<forall>st. mentora_state p \<noteq> Text (Val st)" by blast
  show ?thesis by (simp add: full_def getState_default [OF n] getDefaultState_def)
qed

lemma reload: "full st \<Longrightarrow> getState d (saveState st p) = st"
proof -
  assume f: "full st"
  obtain t where t: "streak st = Val t" "count t \<noteq> Missing" "lastDate t \<noteq> Missing"
    using f by (auto simp: full_def split: slot.splits)
  have "spreadStreak \<lparr>count = Val 1, lastDate = Val (todayISO d)\<rparr> (ownKeys (streak st)) = t"
    using t by (simp add: spreadStreak_def ownKeys_def spread_if)
  then show ?thesis
    using f t by (simp add: getState_saveState full_def spread_if)
qed

lemma full_updates:
  "full st \<Longrightarrow> full (st\<lparr>xp := Val x\<rparr>)"
  "full st \<Longrightarrow> full (st\<lparr>courseRoadmapDone := Val m\<rparr>)"
  "full st \<Longrightarrow> full (st\<lparr>courseProgress := Val cp\<rparr>)"
  "full st \<Longrightarrow> full (st\<lparr>codingDrafts := Val dr\<rparr>)"
  "full st \<Longrightarrow> full (st\<lparr>selectedCourseId := Val i\<rparr>)"
  "full st \<Longrightarrow> full (st\<lparr>community := Val c\<rparr>)"
  "full st \<Longrightarrow> full (st\<lparr>assessment := Val a\<rparr>)"
  by (simp_all add: full_def)

subsection \<open>Roadmap steps\<close>

lemma freshPage_state: "getState d freshPage = getDefaultState d"
  by (simp add: getState_def safeJsonParse_def freshPage_def)

lemma freshPage_flag: "flagAt (getState d freshPage) c s = None"
  by (simp add: freshPage_state getDefaultState_def flagAt_def)

lemma marked_flag: "flagAt st c s = Some b \<Longrightarrow> marked st c s = b"
  by (simp add: marked_def)

text \<open>
  One click on a step button with both ids non-empty and neither the name of an
  inherited member, read back afterwards.
\<close>

lemma toggle_effect:
  assumes ne: "cid \<noteq> []" "stepId \<noteq> []"
    and ni: "\<not> inherited E cid" "\<not> inherited E stepId"
  shows "\<not> raised (courseRoadmapList_onclick d E cid stepId p) \<and>
     (\<forall>c s. flagAt (getState d' (after (courseRoadmapList_onclick d E cid stepId p))) c s =
        (if c = cid \<and> s = stepId then Some (\<not> marked (getState d p) cid stepId)
         else flagAt (getState d p) c s)) \<and>
     xp (getState d' (after (courseRoadmapList_onclick d E cid stepId p))) =
       (if marked (getState d p) cid stepId then xp (getState d p)
        else Val (orZero (xp (getState d p)) + 30)) \<and>
     streak (getState d' (after (courseRoadmapList_onclick d E cid stepId p))) = streak (getState d p) \<and>
     courseProgress (getState d' (after (courseRoadmapList_onclick d E cid stepId p))) =
       courseProgress (getState d p) \<and>
     selectedCourseId (getState d' (after (courseRoadmapList_onclick d E cid stepId p))) =
       selectedCourseId (getState d p) \<and>
     roadmapDone (getState d' (after (courseRoadmapList_onclick d E cid stepId p))) =
       roadmapDone (getState d p) \<and>
     assessment (getState d' (after (courseRoadmapList_onclick d E cid stepId p))) =
       assessment (getState d p) \<and>
     codingDrafts (getState d' (after (courseRoadmapList_onclick d E cid stepId p))) =
       codingDrafts (getState d p) \<and>
     community (getState d' (after (courseRoadmapList_onclick d E cid stepId p))) =
       community (getState d p)"
proof -
  define s0 where "s0 = getState d p"
  define dn where "dn = orEmpty (courseRoadmapDone s0)"
  define steps where "steps = (case dn cid of Some m \<Rightarrow> m | None \<Rightarrow> Map.empty)"
  define cur where "cur = (case steps stepId of Some b \<Rightarrow> b | None \<Rightarrow> False)"
  define nx where "nx = s0\<lparr>courseRoadmapDone := Val (dn(cid \<mapsto> steps(stepId \<mapsto> \<not> cur))),
                           xp := (if cur then xp s0 else Val (orZero (xp s0) + 30))\<rparr>"
  have fl: "flagAt s0 cid stepId = steps stepId"
    by (simp add: flagAt_def steps_def dn_def split: option.splits)
  have cur: "cur = marked s0 cid stepId"
    by (cases "steps stepId") (simp_all add: cur_def marked_def fl)
  have p: "stepId \<noteq> ''__proto__''" using ni by (simp add: inherited_def)
  have cd: "(case steps stepId of Some b \<Rightarrow> b | None \<Rightarrow> inherited E stepId) = cur"
    using ni by (simp add: cur_def split: option.splits)
  have click: "courseRoadmapList_onclick d E cid stepId p = Done (saveState nx p)"
    using ne ni p
    by (simp add: courseRoadmapList_onclick_def Let_def s0_def [symmetric] dn_def [symmetric]
        steps_def [symmetric] cd assign_def nx_def)
  have f0: "full s0" unfolding s0_def by (rule full_getState)
  have "full nx"
  proof (cases cur)
    case True
    then show ?thesis using f0 by (simp add: nx_def full_def)
  next
    case False
    then show ?thesis using f0 by (simp add: nx_def full_def)
  qed
  then have rd: "getState d' (after (courseRoadmapList_onclick d E cid stepId p)) = nx"
    by (simp add: click reload)
  have sd: "flagAt nx c s = (if c = cid \<and> s = stepId then Some (\<not> cur) else flagAt s0 c s)" for c s
  proof (cases "c = cid")
    case True
    then show ?thesis
      by (simp add: nx_def flagAt_def steps_def dn_def split: option.splits)
  next
    case False
    then show ?thesis
      by (simp add: nx_def flagAt_def dn_def)
  qed
  show ?thesis
    unfolding rd s0_def [symmetric]
    by (simp add: click sd cur [symmetric]) (simp add: nx_def)
qed

text \<open>
  C4 (amended). With an empty course id or step id the click does nothing. With both
  non-empty and neither the name of an inherited member, for every page: one click
  stores the negation of the step's flag and adds 30 XP exactly when the step was
  not marked before; a second click flips it back, so after the pair the step is
  marked or not as it was, the XP is 30 higher (the one off-to-on transition of the
  pair), and the flag of every other step and every key other than \<open>xp\<close> and
  \<open>courseRoadmapDone\<close>, \<open>courseProgress\<close> among them, reads as before the first click.
\<close>

theorem toggleRoadmapStep_twice:
  "((cid = [] \<or> stepId = []) \<longrightarrow> courseRoadmapList_onclick d1 E1 cid stepId p = Done p) \<and>
   (cid \<noteq> [] \<and> stepId \<noteq> [] \<and>
    \<not> inherited E1 cid \<and> \<not> inherited E1 stepId \<and> \<not> inherited E2 cid \<and> \<not> inherited E2 stepId \<longrightarrow>
     (let s0 = getState d1 p;
          o1 = courseRoadmapList_onclick d1 E1 cid stepId p;
          s1 = getState d2 (after o1);
          o2 = courseRoadmapList_onclick d2 E2 cid stepId (after o1);
          s2 = getState d3 (after o2)
      in \<not> raised o1 \<and> \<not> raised o2 \<and>
         flagAt s1 cid stepId = Some (\<not> marked s0 cid stepId) \<and>
         marked s1 cid stepId = (\<not> marked s0 cid stepId) \<and>
         xp s1 = (if marked s0 cid stepId then xp s0 else Val (orZero (xp s0) + 30)) \<and>
         flagAt s2 cid stepId = Some (marked s0 cid stepId) \<and>
         marked s2 cid stepId = marked s0 cid stepId \<and>
         orZero (xp s2) = orZero (xp s0) + 30 \<and>
         (\<forall>c s. c \<noteq> cid \<or> s \<noteq> stepId \<longrightarrow>
            flagAt s1 c s = flagAt s0 c s \<and> flagAt s2 c s = flagAt s0 c s) \<and>
         s1\<lparr>xp := xp s0, courseRoadmapDone := courseRoadmapDone s0\<rparr> = s0 \<and>
         s2\<lparr>xp := xp s0, courseRoadmapDone := courseRoadmapDone s0\<rparr> = s0 \<and>
         courseProgress s2 = courseProgress s0))"
proof (intro conjI impI)
  assume "cid = [] \<or> stepId = []"
  then show "courseRoadmapList_onclick d1 E1 cid stepId p = Done p"
    by (auto simp: courseRoadmapList_onclick_def)
next
  assume h: "cid \<noteq> [] \<and> stepId \<noteq> [] \<and>
    \<not> inherited E1 cid \<and> \<not> inherited E1 stepId \<and> \<not> inherited E2 cid \<and> \<not> inherited E2 stepId"
  then have ne: "cid \<noteq> []" "stepId \<noteq> []" by simp_all
  from h have n1: "\<not> inherited E1 cid" "\<not> inherited E1 stepId" by simp_all
  from h have n2: "\<not> inherited E2 cid" "\<not> inherited E2 stepId" by simp_all
  define s0 where "s0 = getState d1 p"
  define p1 where "p1 = after (courseRoadmapList_onclick d1 E1 cid stepId p)"
  define s1 where "s1 = getState d2 p1"
  define p2 where "p2 = after (courseRoadmapList_onclick d2 E2 cid stepId p1)"
  define s2 where "s2 = getState d3 p2"
  note e1 = toggle_effect [OF ne n1, of d1 p d2, folded p1_def s0_def s1_def]
  note e2 = toggle_effect [OF ne n2, of d2 p1 d3, folded p2_def s1_def s2_def]
  have r1: "\<not> raised (courseRoadmapList_onclick d1 E1 cid stepId p)" using e1 by blast
  have r2: "\<not> raised (courseRoadmapList_onclick d2 E2 cid stepId p1)" using e2 by blast
  have a1: "flagAt s1 cid stepId = Some (\<not> marked s0 cid stepId)" using e1 by simp
  have m1: "marked s1 cid stepId = (\<not> marked s0 cid stepId)" by (rule marked_flag [OF a1])
  have a2: "flagAt s2 cid stepId = Some (marked s0 cid stepId)" using e2 m1 by simp
  have m2: "marked s2 cid stepId = marked s0 cid stepId" by (rule marked_flag [OF a2])
  have x1: "xp s1 = (if marked s0 cid stepId then xp s0 else Val (orZero (xp s0) + 30))"
    using e1 by blast
  have x2: "xp s2 = (if marked s1 cid stepId then xp s1 else Val (orZero (xp s1) + 30))"
    using e2 by blast
  have x: "orZero (xp s2) = orZero (xp s0) + 30"
    using x1 x2 m1 by (cases "marked s0 cid stepId") simp_all
  have o1: "c \<noteq> cid \<or> s \<noteq> stepId \<Longrightarrow> flagAt s1 c s = flagAt s0 c s" for c s
    using e1 by auto
  have o2: "c \<noteq> cid \<or> s \<noteq> stepId \<Longrightarrow> flagAt s2 c s = flagAt s0 c s" for c s
    using e2 o1 [of c s] by auto
  have f1: "s1\<lparr>xp := xp s0, courseRoadmapDone := courseRoadmapDone s0\<rparr> = s0"
    using e1 by (cases s1, cases s0) simp
  have g2: "streak s2 = streak s0" "courseProgress s2 = courseProgress s0"
    "selectedCourseId s2 = selectedCourseId s0" "roadmapDone s2 = roadmapDone s0"
    "assessment s2 = assessment s0" "codingDrafts s2 = codingDrafts s0"
    "community s2 = community s0"
    using e1 e2 by simp_all
  have f2: "s2\<lparr>xp := xp s0, courseRoadmapDone := courseRoadmapDone s0\<rparr> = s0"
    using g2 by (cases s2, cases s0) simp
  from r1 r2 a1 m1 a2 m2 x1 x o1 o2 f1 f2 g2(2)
  show "let s0 = getState d1 p;
          o1 = courseRoadmapList_onclick d1 E1 cid stepId p;
          s1 = getState d2 (after o1);
          o2 = courseRoadmapList_onclick d2 E2 cid stepId (after o1);
          s2 = getState d3 (after o2)
      in \<not> raised o1 \<and> \<not> raised o2 \<and>
         flagAt s1 cid stepId = Some (\<not> marked s0 cid stepId) \<and>
         marked s1 cid stepId = (\<not> marked s0 cid stepId) \<and>
         xp s1 = (if marked s0 cid stepId then xp s0 else Val (orZero (xp s0) + 30)) \<and>
         flagAt s2 cid stepId = Some (marked s0 cid stepId) \<and>
         marked s2 cid stepId = marked s0 cid stepId \<and>
         orZero (xp s2) = orZero (xp s0) + 30 \<and>
         (\<forall>c s. c \<noteq> cid \<or> s \<noteq> stepId \<longrightarrow>
            flagAt s1 c s = flagAt s0 c s \<and> flagAt s2 c s = flagAt s0 c s) \<and>
         s1\<lparr>xp := xp s0, courseRoadmapDone := courseRoadmapDone s0\<rparr> = s0 \<and>
         s2\<lparr>xp := xp s0, courseRoadmapDone := courseRoadmapDone s0\<rparr> = s0 \<and>
         courseProgress s2 = courseProgress s0"
    unfolding Let_def s0_def [symmetric] p1_def [symmetric] s1_def [symmetric] p2_def [symmetric]
      s2_def [symmetric]
    by blast
qed

lemma ecma_plain: "\<not> inherited ecma ''c1''" "\<not> inherited ecma ''r1''" "\<not> inherited ecma ''p1''"
  by (simp_all add: inherited_def ecma_def)

theorem toggleRoadmapStep_twice_witness:
  "''c1'' \<noteq> [] \<and> ''r1'' \<noteq> [] \<and> \<not> inherited ecma ''c1'' \<and> \<not> inherited ecma ''r1'' \<and>
   courseRoadmapList_onclick march5 ecma [] ''r1'' freshPage = Done freshPage \<and>
   marked (getState march5 (after (courseRoadmapList_onclick march5 ecma ''c1'' ''r1'' freshPage))) ''c1'' ''r1'' \<and>
   xp (getState march5 (after (courseRoadmapList_onclick march5 ecma ''c1'' ''r1'' freshPage))) = Val 150 \<and>
   \<not> marked (getState march5 (after (courseRoadmapList_onclick march5 ecma ''c1'' ''r1''
       (after (courseRoadmapList_onclick march5 ecma ''c1'' ''r1'' freshPage))))) ''c1'' ''r1'' \<and>
   orZero (xp (getState march5 (after (courseRoadmapList_onclick march5 ecma ''c1'' ''r1''
       (after (courseRoadmapList_onclick march5 ecma ''c1'' ''r1'' freshPage)))))) = 150"
proof -
  have x: "xp (getState march5 freshPage) = Val 120"
    by (simp add: freshPage_state getDefaultState_def)
  have m: "\<not> marked (getState march5 freshPage) ''c1'' ''r1''"
    by (simp add: marked_def freshPage_flag)
  from toggleRoadmapStep_twice [of "[]" "''r1''" march5 ecma freshPage]
  have e: "courseRoadmapList_onclick march5 ecma [] ''r1'' freshPage = Done freshPage"
    by simp
  from toggleRoadmapStep_twice [of "''c1''" "''r1''" march5 ecma freshPage ecma march5 march5]
  show ?thesis
    by (simp add: Let_def ecma_plain m x e)
qed

text \<open>
  C4 as stated fails: on the empty course id the click returns at its guard and the
  flag is not flipped; and each further off-to-on transition pays again, so four
  clicks on one step of a fresh page take the XP from 120 to 180.
\<close>

theorem toggleRoadmapStep_counterexample:
  "after (courseRoadmapList_onclick march5 ecma [] ''r1'' freshPage) = freshPage \<and>
   flagAt (getState march5 (after (courseRoadmapList_onclick march5 ecma [] ''r1'' freshPage))) [] ''r1'' =
     flagAt (getState march5 freshPage) [] ''r1'' \<and>
   xpCount march5 freshPage = 120 \<and>
   xpCount march5
     (run Null [ToggleStep march5 ecma ''c1'' ''r1'', ToggleStep march5 ecma ''c1'' ''r1'',
                ToggleStep march5 ecma ''c1'' ''r1'', ToggleStep march5 ecma ''c1'' ''r1''] freshPage) = 180"
proof -
  define p1 where "p1 = after (courseRoadmapList_onclick march5 ecma ''c1'' ''r1'' freshPage)"
  define p2 where "p2 = after (courseRoadmapList_onclick march5 ecma ''c1'' ''r1'' p1)"
  define p3 where "p3 = after (courseRoadmapList_onclick march5 ecma ''c1'' ''r1'' p2)"
  define p4 where "p4 = after (courseRoadmapList_onclick march5 ecma ''c1'' ''r1'' p3)"
  have ne: "''c1'' \<noteq> []" "''r1'' \<noteq> []" by simp_all
  have x0: "xp (getState march5 freshPage) = Val 120"
    by (simp add: freshPage_state getDefaultState_def)
  have s0: "\<not> marked (getState march5 freshPage) ''c1'' ''r1''"
    by (simp add: marked_def freshPage_flag)
  note e1 = toggle_effect [OF ne ecma_plain(1,2), of march5 freshPage march5, folded p1_def]
  note e2 = toggle_effect [OF ne ecma_plain(1,2), of march5 p1 march5, folded p2_def]
  note e3 = toggle_effect [OF ne ecma_plain(1,2), of march5 p2 march5, folded p3_def]
  note e4 = toggle_effect [OF ne ecma_plain(1,2), of march5 p3 march5, folded p4_def]
  have s1: "marked (getState march5 p1) ''c1'' ''r1''" using e1 s0 by (simp add: marked_def)
  have x1: "xp (getState march5 p1) = Val 150" using e1 s0 by (simp add: x0)
  have s2: "\<not> marked (getState march5 p2) ''c1'' ''r1''" using e2 s1 by (simp add: marked_def)
  have x2: "xp (getState march5 p2) = Val 150" using e2 s1 x1 by simp
  have s3: "marked (getState march5 p3) ''c1'' ''r1''" using e3 s2 by (simp add: marked_def)
  have x3: "xp (getState march5 p3) = Val 180" using e3 s2 x2 by simp
  have x4: "xp (getState march5 p4) = Val 180" using e4 s3 x3 by simp
  have r: "run Null [ToggleStep march5 ecma ''c1'' ''r1'', ToggleStep march5 ecma ''c1'' ''r1'',
                ToggleStep march5 ecma ''c1'' ''r1'', ToggleStep march5 ecma ''c1'' ''r1''] freshPage = p4"
    by (simp add: p1_def p2_def p3_def p4_def)
  have g: "after (courseRoadmapList_onclick march5 ecma [] ''r1'' freshPage) = freshPage"
    by (simp add: courseRoadmapList_onclick_def)
  show ?thesis
    unfolding r g by (simp add: xpCount_def x0 x4)
qed

text \<open>
  Ids that name an inherited member, which the amended statement leaves out. A step
  named \<^verbatim>\<open>toString\<close> reads as done before it was ever clicked: the first click on a
  fresh page stores \<^verbatim>\<open>false\<close> and pays nothing. For a course named \<^verbatim>\<open>constructor\<close> the
  flag is kept on the function \<^verbatim>\<open>Object\<close> and never saved: the click pays 30 XP, the
  stored roadmap stays empty, and the click after a reload of the page pays again.
\<close>

lemma toggle_inherited_step:
  "inherited ecma ''toString'' \<and>
   xpCount march5 freshPage = 120 \<and>
   xpCount march5 (after (courseRoadmapList_onclick march5 ecma ''c1'' ''toString'' freshPage)) = 120 \<and>
   flagAt (getState march5 (after (courseRoadmapList_onclick march5 ecma ''c1'' ''toString'' freshPage)))
     ''c1'' ''toString'' = Some False"
  by (simp add: courseRoadmapList_onclick_def Let_def freshPage_state xpCount_def inherited_def
      ecma_def assign_def flagAt_def getState_saveState getDefaultState_def)

lemma toggle_inherited_course:
  "inherited ecma ''constructor'' \<and>
   xpCount march5 (run Null [ToggleStep march5 ecma ''constructor'' ''r1''] freshPage) = 150 \<and>
   courseRoadmapDone (getState march5
     (run Null [ToggleStep march5 ecma ''constructor'' ''r1''] freshPage)) = Val Map.empty \<and>
   xpCount march5
     (run Null [ToggleStep march5 ecma ''constructor'' ''r1'',
                ToggleStep march5 ecma ''constructor'' ''r1''] freshPage) = 180"
  by (simp add: courseRoadmapList_onclick_def Let_def freshPage_state xpCount_def inherited_def
      ecma_def getState_saveState getDefaultState_def)

subsection \<open>Comments\<close>

lemma trim_empty_iff: "trim s = [] \<longleftrightarrow> (\<forall>c \<in> set s. isWhiteSpace c)"
proof
  assume "trim s = []"
  then have "\<forall>x \<in> set (dropWhile isWhiteSpace s). isWhiteSpace x"
    by (simp add: trim_def dropWhile_eq_Nil_conv)
  then have "dropWhile isWhiteSpace s = []"
    using hd_dropWhile [of isWhiteSpace s] by (cases "dropWhile isWhiteSpace s") auto
  then show "\<forall>c \<in> set s. isWhiteSpace c"
    by (simp add: dropWhile_eq_Nil_conv)
next
  assume "\<forall>c \<in> set s. isWhiteSpace c"
  then have d: "dropWhile isWhiteSpace s = []" by (simp add: dropWhile_eq_Nil_conv)
  show "trim s = []" unfolding trim_def d by simp
qed

text \<open>
  What the post button of a comment box does hold to. When the input is empty or
  holds white space only, the handler returns before it reads the state: the page
  is unchanged and nothing is thrown, whatever the state and the post.
\<close>

lemma comment_blank:
  "(\<forall>ch \<in> set input. isWhiteSpace ch) \<Longrightarrow>
     communityList_onclick d E (CommentBtn ident input) p = Done p"
  by (simp add: communityList_onclick.simps trim_empty_iff)

text \<open>
  Otherwise, on a state whose \<open>community.comments\<close> is a dictionary and for a post
  that has an entry there or whose id names no inherited member, the trimmed text
  is appended to the sequence of that post; the other posts, the likes and every
  other key read as before.
\<close>

lemma comment_appends:
  assumes nw: "\<not> (\<forall>ch \<in> set input. isWhiteSpace ch)"
    and c: "community (getState d p) = Val c" and cs: "comments c = Val cs"
    and own: "cs ident \<noteq> None \<or> \<not> inherited E ident"
  shows "(let o1 = communityList_onclick d E (CommentBtn ident input) p;
              s1 = getState d' (after o1)
          in \<not> raised o1 \<and> trim input \<noteq> [] \<and>
             commentsAt s1 ident =
               Some ((case commentsAt (getState d p) ident of Some xs \<Rightarrow> xs | None \<Rightarrow> []) @ [trim input]) \<and>
             (\<forall>other. other \<noteq> ident \<longrightarrow> commentsAt s1 other = commentsAt (getState d p) other) \<and>
             (\<exists>c1. community s1 = Val c1 \<and> likes c1 = likes c) \<and>
             s1\<lparr>community := community (getState d p)\<rparr> = getState d p)"
proof -
  from nw have t: "trim input \<noteq> []" by (simp add: trim_empty_iff)
  define s0 where "s0 = getState d p"
  define old where "old = (case cs ident of Some xs \<Rightarrow> xs | None \<Rightarrow> [])"
  define nx where "nx = s0\<lparr>community := Val (c\<lparr>comments := Val (cs(ident \<mapsto> old @ [trim input]))\<rparr>)\<rparr>"
  have click: "communityList_onclick d E (CommentBtn ident input) p = Done (saveState nx p)"
    using t c cs own
    by (cases "cs ident")
      (simp_all add: communityList_onclick.simps Let_def nx_def s0_def old_def)
  have "full s0" unfolding s0_def by (rule full_getState)
  then have "full nx" unfolding nx_def by (rule full_updates)
  then have rd: "getState d' (after (communityList_onclick d E (CommentBtn ident input) p)) = nx"
    by (simp add: click reload)
  have c0: "community s0 = Val c" using c by (simp add: s0_def)
  have o: "commentsAt s0 k = cs k" for k
    using c0 cs by (simp add: commentsAt_def)
  have a: "commentsAt nx ident =
      Some ((case commentsAt s0 ident of Some xs \<Rightarrow> xs | None \<Rightarrow> []) @ [trim input])"
    by (simp add: o) (simp add: nx_def commentsAt_def old_def)
  have b: "other \<noteq> ident \<Longrightarrow> commentsAt nx other = commentsAt s0 other" for other
    by (simp add: o) (simp add: nx_def commentsAt_def)
  have l: "\<exists>c1. community nx = Val c1 \<and> likes c1 = likes c"
    by (simp add: nx_def)
  have f: "nx\<lparr>community := community s0\<rparr> = s0"
    by (simp add: nx_def)
  have nr: "\<not> raised (communityList_onclick d E (CommentBtn ident input) p)"
    by (simp add: click)
  from nr t a b l f show ?thesis
    unfolding Let_def rd s0_def [symmetric] by blast
qed

lemma talkPage_state:
  "getState d talkPage =
     (getDefaultState march5)
       \<lparr>community := Val \<lparr>likes = Val Map.empty, comments = Val [''p1'' \<mapsto> [''hi'']]\<rparr>\<rparr>"
  by (simp add: getState_def safeJsonParse_def talkPage_def getDefaultState_def Let_def
      spreadStreak_def ownKeys_def)

lemma comment_example:
  "communityList_onclick march5 ecma (CommentBtn ''p1'' ''   '') talkPage = Done talkPage \<and>
   trim '' ok '' = ''ok'' \<and>
   commentsAt (getState march5 (after (communityList_onclick march5 ecma (CommentBtn ''p1'' '' ok '') talkPage)))
     ''p1'' = Some [''hi'', ''ok'']"
proof -
  have w: "\<forall>ch \<in> set ''   ''. isWhiteSpace ch" by (simp add: isWhiteSpace_def)
  have n: "\<not> (\<forall>ch \<in> set '' ok ''. isWhiteSpace ch)" by (simp add: isWhiteSpace_def)
  have t2: "trim '' ok '' = ''ok''" by (simp add: trim_def isWhiteSpace_def)
  have pc: "commentsAt (getState march5 talkPage) ''p1'' = Some [''hi'']"
    by (simp add: talkPage_state commentsAt_def)
  have c: "community (getState march5 talkPage) =
      Val \<lparr>likes = Val Map.empty, comments = Val [''p1'' \<mapsto> [''hi'']]\<rparr>"
    by (simp add: talkPage_state)
  have k: "comments \<lparr>likes = Val Map.empty, comments = Val [''p1'' \<mapsto> [''hi'']]\<rparr> =
      Val [''p1'' \<mapsto> [''hi'']]"
    by simp
  have own: "[''p1'' \<mapsto> [''hi'']] ''p1'' \<noteq> None \<or> \<not> inherited ecma ''p1''" by simp
  from comment_appends [OF n c k own, of march5]
  have b: "commentsAt (getState march5
      (after (communityList_onclick march5 ecma (CommentBtn ''p1'' '' ok '') talkPage))) ''p1'' =
       Some ([''hi''] @ [trim '' ok ''])"
    unfolding Let_def by (simp add: pc)
  show ?thesis
    using comment_blank [OF w, of march5 ecma "''p1''" talkPage] t2 b by simp
qed

lemma likesOnlyPage_state:
  "community (getState d likesOnlyPage) =
     Val \<lparr>likes = Val [''p1'' \<mapsto> Count 2], comments = Missing\<rparr>"
  by (simp add: getState_stored likesOnlyPage_def likesOnly_def getDefaultState_def)

text \<open>
  C8. A comment with text is not appended for every state and post, and the handler
  does throw. For the post id \<^verbatim>\<open>constructor\<close>, on a fresh page,
  \<^verbatim>\<open>comments[id] || []\<close> is the function \<^verbatim>\<open>Object\<close> that every dictionary inherits under
  that key: it has no \<^verbatim>\<open>push\<close>, the call throws a \<^verbatim>\<open>TypeError\<close>, nothing is saved and
  the post has no comment afterwards. And on a stored state whose \<open>community\<close> has
  no \<open>comments\<close>, which \<open>getState\<close> hands on as it is, the handler throws for the post
  \<open>p1\<close> as for any other.
\<close>

theorem addComment_throws:
  "trim ''hello'' = ''hello'' \<and>
   inherited ecma ''constructor'' \<and>
   communityList_onclick march5 ecma (CommentBtn ''constructor'' ''hello'') freshPage =
     Raised TypeError freshPage \<and>
   commentsAt (getState march5
       (after (communityList_onclick march5 ecma (CommentBtn ''constructor'' ''hello'') freshPage)))
     ''constructor'' = None \<and>
   community (getState march5 likesOnlyPage) =
     Val \<lparr>likes = Val [''p1'' \<mapsto> Count 2], comments = Missing\<rparr> \<and>
   \<not> inherited ecma ''p1'' \<and>
   communityList_onclick march5 ecma (CommentBtn ''p1'' ''hello'') likesOnlyPage =
     Raised TypeError likesOnlyPage"
proof -
  have t: "trim ''hello'' = ''hello''" by (simp add: trim_def isWhiteSpace_def)
  have i: "inherited ecma ''constructor''" by (simp add: inherited_def ecma_def)
  have c: "community (getState march5 freshPage) =
      Val \<lparr>likes = Val Map.empty, comments = Val Map.empty\<rparr>"
    by (simp add: freshPage_state getDefaultState_def)
  have r: "communityList_onclick march5 ecma (CommentBtn ''constructor'' ''hello'') freshPage =
     Raised TypeError freshPage"
    by (simp add: communityList_onclick.simps t c i)
  have n: "commentsAt (getState march5 freshPage) ''constructor'' = None"
    by (simp add: commentsAt_def c)
  have l: "communityList_onclick march5 ecma (CommentBtn ''p1'' ''hello'') likesOnlyPage =
     Raised TypeError likesOnlyPage"
    by (simp add: communityList_onclick.simps t likesOnlyPage_state)
  from t i r n l likesOnlyPage_state [of march5] ecma_plain(3) show ?thesis
    by (simp only: after.simps) blast
qed

subsection \<open>XP over the events\<close>

lemma xpCount_saved_Val: "xp st = Val x \<Longrightarrow> xpCount d (saveState st p) = x"
  by (simp add: xpCount_def getState_saveState)

lemma xpCount_saved_same:
  "xp st = xp (getState d0 p) \<Longrightarrow> xpCount d (saveState st q) = xpCount d0 p"
  using getState_keys [of d0 p]
  by (simp add: xpCount_def getState_saveState spread_if)

lemma xpCount_timers [simp]:
  "xpCount d (stopTimer p) = xpCount d p"
  "xpCount d (p\<lparr>assessmentEndsAt := e\<rparr>) = xpCount d p"
  "xpCount d (p\<lparr>assessmentTimer := t\<rparr>) = xpCount d p"
  by (simp_all add: xpCount_def)

lemma xp_lesson: "xpCount d0 p \<le> xpCount d (after (lessonBtn_onclick d0 E cid p))"
  by (cases "courseProgress (getState d0 p)")
    (simp_all add: lessonBtn_onclick_def Let_def xpCount_saved_Val xpCount_date [of d p d0]
      xpCount_def [of d0 p])

lemma xp_bonus: "xpCount d0 p \<le> xpCount d (after (xpBtn_onclick d0 p))"
  by (simp add: xpBtn_onclick_def Let_def xpCount_saved_Val xpCount_def [of d0 p])

lemma xp_toggle: "xpCount d0 p \<le> xpCount d (after (courseRoadmapList_onclick d0 E cid stepId p))"
proof (cases "probe E cid stepId")
  case ReadThrows
  then show ?thesis
    by (simp add: courseRoadmapList_onclick_def Let_def xpCount_saved_Val xpCount_saved_same
        xpCount_date [of d p d0])
      (simp add: xpCount_def)
next
  case (Member cur writes)
  then show ?thesis
    by (simp add: courseRoadmapList_onclick_def Let_def xpCount_saved_Val xpCount_saved_same
        xpCount_date [of d p d0])
      (simp add: xpCount_def)
qed

lemma xp_mcq: "xpCount d0 p \<le> xpCount d (after (mcqChoice_onclick d0 i ans p))"
  by (simp add: mcqChoice_onclick_def Let_def xpCount_saved_Val xpCount_date [of d p d0]
      xpCount_def [of d0 p])

lemma xp_draft: "xpCount d0 p \<le> xpCount d (after (saveCodeBtn_onclick d0 ident code p))"
  by (cases "codingDrafts (getState d0 p)")
    (simp_all add: saveCodeBtn_onclick_def Let_def xpCount_saved_same xpCount_date [of d p d0])

lemma xp_select: "xpCount d0 p \<le> xpCount d (after (courseList_onclick d0 ident p))"
  by (simp add: courseList_onclick_def Let_def xpCount_saved_same)

lemma xp_community: "xpCount d0 p \<le> xpCount d (after (communityList_onclick d0 E t p))"
proof (cases t)
  case (LikeBtn ident)
  show ?thesis
  proof (cases "community (getState d0 p)")
    case (Val c)
    then show ?thesis unfolding LikeBtn
      by (cases "likes c")
        (simp_all add: communityList_onclick.simps Let_def xpCount_saved_same
          xpCount_date [of d p d0])
  qed (simp_all add: LikeBtn communityList_onclick.simps Let_def xpCount_date [of d p d0])
next
  case (CommentBtn ident input)
  show ?thesis
  proof (cases "community (getState d0 p)")
    case (Val c)
    then show ?thesis unfolding CommentBtn
      by (cases "comments c")
        (simp_all add: communityList_onclick.simps Let_def xpCount_saved_same
          xpCount_date [of d p d0] split: option.splits)
  qed (simp_all add: CommentBtn communityList_onclick.simps Let_def xpCount_date [of d p d0])
next
  case Elsewhere
  then show ?thesis by (simp add: communityList_onclick.simps xpCount_date [of d p d0])
qed

lemma xp_submit: "xpCount d0 p \<le> xpCount d (after (submitAssessment b n d0 a c p))"
proof (cases "truthyN (assessmentEndsAt p)")
  case False
  then show ?thesis by (simp add: submit_idle xpCount_date [of d p d0])
next
  case True
  show ?thesis
  proof (cases "assessment (getState d0 p)")
    case (Val asm)
    have "0 \<le> bonus (scorePct (countCorrect c (quizQuestions a) 0) (length (quizQuestions a)))"
      by (rule bonus_bounds [OF scorePct_nonneg])
    then show ?thesis
      by (simp add: submit_running [OF True Val] xpCount_saved_Val xpCount_def [of d0 p])
  qed (simp_all add: True submitAssessment_def Let_def xpCount_date [of d p d0])
qed

lemma xp_tick: "xpCount d0 p \<le> xpCount d (after (tickTimer n d0 a c p))"
proof -
  have "tickTimer n d0 a c p = Done p \<or> tickTimer n d0 a c p = submitAssessment True n d0 a c p"
    by (simp add: tickTimer_def Let_def split: slot.splits)
  then show ?thesis
    using xp_submit [of d0 p d True n a c] by (auto simp: xpCount_date [of d p d0])
qed

lemma xp_start: "xpCount d0 p \<le> xpCount d (after (startAssessment n h d0 a c p))"
proof -
  define q where "q = (stopTimer p)\<lparr>assessmentEndsAt :=
      Val (n + (if truthyN (timeSeconds (case a of Val q \<Rightarrow> q | _ \<Rightarrow> FALLBACK_assessment))
                then orZero (timeSeconds (case a of Val q \<Rightarrow> q | _ \<Rightarrow> FALLBACK_assessment))
                else 60) * 1000)\<rparr>"
  have q: "xpCount d0 q = xpCount d0 p" by (simp add: q_def)
  have "xpCount d (after (startAssessment n h d0 a c p)) = xpCount d (after (tickTimer n d0 a c q))"
    by (cases "tickTimer n d0 a c q") (simp_all add: startAssessment_def Let_def q_def)
  then show ?thesis using xp_tick [of d0 q d n a c] q by simp
qed

lemma xp_fire: "xpCount d p \<le> xpCount d (after (fire a e p))"
proof (cases e)
  case (LessonComplete d0 E cid)
  then show ?thesis using xp_lesson [of d0 p d E cid] by (simp add: xpCount_date [of d p d0])
next
  case (BonusXp d0)
  then show ?thesis using xp_bonus [of d0 p d] by (simp add: xpCount_date [of d p d0])
next
  case (ToggleStep d0 E cid stepId)
  then show ?thesis using xp_toggle [of d0 p d E cid stepId] by (simp add: xpCount_date [of d p d0])
next
  case (AnswerMcq d0 i ans)
  then show ?thesis using xp_mcq [of d0 p d i ans] by (simp add: xpCount_date [of d p d0])
next
  case (StartAssessment n h d0 c)
  then show ?thesis using xp_start [of d0 p d n h a c] by (simp add: xpCount_date [of d p d0])
next
  case (Tick n d0 c)
  then show ?thesis using xp_tick [of d0 p d n a c] by (simp add: xpCount_date [of d p d0])
next
  case (SubmitAssessment b n d0 c)
  then show ?thesis using xp_submit [of d0 p d b n a c] by (simp add: xpCount_date [of d p d0])
next
  case ResetAssessment
  then show ?thesis by (simp add: resetAssessmentBtn_onclick_def)
next
  case (SaveDraft d0 ident code)
  then show ?thesis using xp_draft [of d0 p d ident code] by (simp add: xpCount_date [of d p d0])
next
  case (CommunityClick d0 E t)
  then show ?thesis using xp_community [of d0 p d E t] by (simp add: xpCount_date [of d p d0])
next
  case (SelectCourse d0 ident)
  then show ?thesis using xp_select [of d0 p d ident] by (simp add: xpCount_date [of d p d0])
qed

lemma xp_run: "xpCount d p \<le> xpCount d (run a es p)"
proof (induction es arbitrary: p)
  case Nil
  show ?case by simp
next
  case (Cons e es)
  have "xpCount d p \<le> xpCount d (after (fire a e p))" by (rule xp_fire)
  also have "\<dots> \<le> xpCount d (run a es (after (fire a e p)))" by (rule Cons.IH)
  finally show ?case by simp
qed


text \<open>
  C7. No event lowers the XP that the state read back shows: a lesson completion,
  the bonus button, a roadmap click, a practice answer, starting, ticking,
  submitting or resetting an assessment, a saved draft, a like or a comment, a
  course selection, whether the handler finishes or throws; so no sequence of them
  does. The reset of the progress and the logout put the XP at the default 120,
  whatever it was.
\<close>

theorem xp_never_decreases:
  "xpCount d p \<le> xpCount d' (after (fire a e p)) \<and>
   xpCount d p \<le> xpCount d' (run a es p) \<and>
   xpCount d' (after (resetProgressBtn_onclick d0 p)) = 120 \<and>
   xpCount d' (after (logout p)) = 120"
proof -
  have 1: "xpCount d p \<le> xpCount d' (after (fire a e p))"
    using xp_fire [of d' p a e] by (simp add: xpCount_date [of d p d'])
  have 2: "xpCount d p \<le> xpCount d' (run a es p)"
    using xp_run [of d' p a es] by (simp add: xpCount_date [of d p d'])
  have 3: "xpCount d' (after (resetProgressBtn_onclick d0 p)) = 120"
    by (simp add: resetProgressBtn_onclick_def xpCount_saved_Val getDefaultState_def)
  have 4: "xpCount d' (after (logout p)) = 120"
    by (simp add: logout_def xpCount_def getState_def safeJsonParse_def getDefaultState_def)
  from 1 2 3 4 show ?thesis by blast
qed

theorem xp_never_decreases_witness:
  "xpCount march5 freshPage = 120 \<and>
   xpCount march5 (run Null [BonusXp march5, AnswerMcq march5 1 1, SaveDraft march5 ''q1'' ''x''] freshPage) = 165 \<and>
   xpCount march5 (after (resetProgressBtn_onclick march5
     (run Null [BonusXp march5, AnswerMcq march5 1 1, SaveDraft march5 ''q1'' ''x''] freshPage))) = 120"
proof -
  have a: "xpCount march5 freshPage = 120"
    by (simp add: xpCount_def freshPage_state getDefaultState_def)
  have b: "xpCount march5 (run Null [BonusXp march5, AnswerMcq march5 1 1, SaveDraft march5 ''q1'' ''x''] freshPage) = 165"
    by (simp add: xpBtn_onclick_def mcqChoice_onclick_def saveCodeBtn_onclick_def Let_def
        xpCount_def getState_saveState freshPage_state getDefaultState_def spreadStreak_def ownKeys_def)
  have c: "xpCount march5 (after (resetProgressBtn_onclick march5
     (run Null [BonusXp march5, AnswerMcq march5 1 1, SaveDraft march5 ''q1'' ''x''] freshPage))) = 120"
    using xp_never_decreases [of march5
        "run Null [BonusXp march5, AnswerMcq march5 1 1, SaveDraft march5 ''q1'' ''x''] freshPage"
        march5 Null "BonusXp march5" "[]" march5]
    by blast
  from a b c show ?thesis by blast
qed

subsection \<open>Session start\<close>

lemma bump_again:
  "bumpStreakIfNeeded localDay d (bumpStreakIfNeeded localDay d st) = bumpStreakIfNeeded localDay d st"
proof -
  have ne: "todayISO d \<noteq> []" by (rule todayISO_nonempty)
  show ?thesis
  proof (cases "streak st")
    case (Val s)
    show ?thesis
    proof (cases "lastDate s")
      case l: (Val l)
      with Val show ?thesis using ne
        by (cases s) (simp add: bumpStreakIfNeeded_def Let_def)
    qed (use Val ne in \<open>simp_all add: bumpStreakIfNeeded_def Let_def\<close>)
  qed (use ne in \<open>simp_all add: bumpStreakIfNeeded_def Let_def\<close>)
qed

lemma full_bump: "full st \<Longrightarrow> full (bumpStreakIfNeeded localDay d st)"
  by (cases "streak st")
    (auto simp: bumpStreakIfNeeded_def Let_def full_def split: slot.splits)

text \<open>Two session starts on one day leave the page of the first.\<close>

lemma sessionStart_twice:
  "sessionStart localDay d (sessionStart localDay d p) = sessionStart localDay d p"
proof -
  define b where "b = bumpStreakIfNeeded localDay d (getState d p)"
  have f: "full b" unfolding b_def by (rule full_bump [OF full_getState])
  have i: "bumpStreakIfNeeded localDay d b = b"
    unfolding b_def by (rule bump_again)
  have "sessionStart localDay d (sessionStart localDay d p) = saveState b (saveState b p)"
    by (simp add: sessionStart_def b_def [symmetric] reload [OF f] i)
  also have "\<dots> = saveState b p" by (simp add: saveState_def)
  finally show ?thesis by (simp add: sessionStart_def b_def)
qed

end
